theory Spec2Isabelle
  imports Main
begin

section \<open>JavaScript values\<close>

text \<open>
  The MetaTrader 5 MCP server exists in two variants: \<^verbatim>\<open>src/mt5-server.ts\<close> (twelve tools,
  built on the MCP SDK) and \<^verbatim>\<open>server.js\<close> (eight tools, with its own Content-Length
  framing on standard input). Both handle untyped values decoded from JSON, so the model
  starts with the values of the language.

  A number is never computed with in this program: it is tested with \<^verbatim>\<open>typeof\<close>, tested
  for truthiness and converted to text. \<open>Integral n\<close> is an integral value (below 1e21 in
  magnitude, where JavaScript prints plain digits); \<open>Decimal s\<close> is any other finite value,
  identified by its canonical text \<open>s\<close> (as in \<^verbatim>\<open>0.1\<close>); the remaining constructors are
  the special values. A string is a list of 8-bit characters, standing for UTF-16 code
  units below 256.
\<close>

datatype jsnum = Integral int | Decimal string | NegZero | NaN | PosInfinity | NegInfinity

datatype jsval =
    JUndefined
  | JNull
  | JBool bool
  | JNum jsnum
  | JStr string
  | JArr "jsval list"
  | JObj "(string \<times> jsval) list"

datatype ErrorCode = MethodNotFound | InvalidParams | InternalError

text \<open>
  The exceptions of the program: \<open>Error\<close>, \<open>TypeError\<close> and \<open>SyntaxError\<close> of the language
  (the last thrown by \<^verbatim>\<open>JSON.parse\<close>), \<open>McpError\<close> of
  the SDK, and the error of the HTTP client, which carries its message and, when the
  backend answered, the status and body of the response.
\<close>

datatype exn =
    Error string
  | TypeError string
  | SyntaxError string
  | McpError ErrorCode string
  | AxiosError string "(nat \<times> jsval) option"

definition message_of :: "exn \<Rightarrow> string" where
  "message_of e = (case e of Error m \<Rightarrow> m | TypeError m \<Rightarrow> m | SyntaxError m \<Rightarrow> m
                   | McpError c m \<Rightarrow> m
                   | AxiosError m r \<Rightarrow> m)"

definition typeof :: "jsval \<Rightarrow> string" where
  "typeof v = (case v of JUndefined \<Rightarrow> ''undefined'' | JNull \<Rightarrow> ''object''
               | JBool b \<Rightarrow> ''boolean'' | JNum n \<Rightarrow> ''number'' | JStr s \<Rightarrow> ''string''
               | JArr xs \<Rightarrow> ''object'' | JObj kvs \<Rightarrow> ''object'')"

definition truthy :: "jsval \<Rightarrow> bool" where
  "truthy v = (case v of JUndefined \<Rightarrow> False | JNull \<Rightarrow> False | JBool b \<Rightarrow> b
               | JNum n \<Rightarrow> (case n of Integral i \<Rightarrow> i \<noteq> 0 | NegZero \<Rightarrow> False | NaN \<Rightarrow> False
                              | _ \<Rightarrow> True)
               | JStr s \<Rightarrow> s \<noteq> [] | JArr xs \<Rightarrow> True | JObj kvs \<Rightarrow> True)"

text \<open>
  Reading a property \<^verbatim>\<open>v.k\<close>. Reading from \<^verbatim>\<open>null\<close> or \<^verbatim>\<open>undefined\<close> throws a
  TypeError. None of the property names this program reads is defined on the prototype of
  an array, a string, a number or a boolean, so reading them from such a value gives
  \<^verbatim>\<open>undefined\<close>.
\<close>

definition get_property :: "jsval \<Rightarrow> string \<Rightarrow> exn + jsval" where
  "get_property v k =
     (case v of
        JUndefined \<Rightarrow>
          Inl (TypeError (''Cannot read properties of undefined (reading '' @ [CHR 0x27] @ k @ [CHR 0x27] @ '')''))
      | JNull \<Rightarrow>
          Inl (TypeError (''Cannot read properties of null (reading '' @ [CHR 0x27] @ k @ [CHR 0x27] @ '')''))
      | JObj kvs \<Rightarrow> Inr (case map_of kvs k of None \<Rightarrow> JUndefined | Some x \<Rightarrow> x)
      | _ \<Rightarrow> Inr JUndefined)"

subsection \<open>Conversion to text\<close>

fun show_nat :: "nat \<Rightarrow> string" where
  "show_nat n = (if n < 10 then [''0123456789'' ! n]
                 else show_nat (n div 10) @ [''0123456789'' ! (n mod 10)])"

declare show_nat.simps [simp del]

definition show_int :: "int \<Rightarrow> string" where
  "show_int i = (if i < 0 then ''-'' @ show_nat (nat (- i)) else show_nat (nat i))"

definition Number_toString :: "jsnum \<Rightarrow> string" where
  "Number_toString n = (case n of Integral i \<Rightarrow> show_int i | Decimal s \<Rightarrow> s | NegZero \<Rightarrow> ''0''
                        | NaN \<Rightarrow> ''NaN'' | PosInfinity \<Rightarrow> ''Infinity''
                        | NegInfinity \<Rightarrow> ''-Infinity'')"

fun join :: "string \<Rightarrow> string list \<Rightarrow> string" where
  "join sep [] = []"
| "join sep [x] = x"
| "join sep (x # y # ys) = x @ sep @ join sep (y # ys)"

text \<open>
  The conversion a template literal applies to an interpolated value. It can throw. An
  object is converted by \<^verbatim>\<open>OrdinaryToPrimitive\<close>, which reads its \<^verbatim>\<open>toString\<close> and then its
  \<^verbatim>\<open>valueOf\<close> and calls the first that is callable and returns a primitive value. An
  object decoded from JSON inherits \<^verbatim>\<open>Object.prototype.toString\<close>, which returns
  \<^verbatim>\<open>[object Object]\<close>, unless it has a property \<^verbatim>\<open>toString\<close> of its own. Such a property
  holds a decoded value, never a function, and is skipped; \<^verbatim>\<open>valueOf\<close>, its own (no
  function either) or the inherited one (which returns the object itself), gives no
  primitive value, and the conversion throws a TypeError. An array is joined with commas,
  its \<^verbatim>\<open>null\<close> and \<^verbatim>\<open>undefined\<close> elements printing as nothing and the others converted
  in order, the first exception ending the conversion.
\<close>

fun collect :: "(exn + 'a) list \<Rightarrow> exn + 'a list" where
  "collect [] = Inr []"
| "collect (Inl e # rs) = Inl e"
| "collect (Inr x # rs) = (case collect rs of Inl e \<Rightarrow> Inl e | Inr xs \<Rightarrow> Inr (x # xs))"

fun ToString :: "jsval \<Rightarrow> exn + string" where
  "ToString JUndefined = Inr ''undefined''"
| "ToString JNull = Inr ''null''"
| "ToString (JBool b) = Inr (if b then ''true'' else ''false'')"
| "ToString (JNum n) = Inr (Number_toString n)"
| "ToString (JStr s) = Inr s"
| "ToString (JArr xs) =
     (case collect (map (\<lambda>x. if x = JUndefined \<or> x = JNull then Inr [] else ToString x) xs) of
        Inl e \<Rightarrow> Inl e
      | Inr parts \<Rightarrow> Inr (join '','' parts))"
| "ToString (JObj kvs) =
     (if map_of kvs ''toString'' = None then Inr ''[object Object]''
      else Inl (TypeError ''Cannot convert object to primitive value''))"

subsection \<open>JSON.stringify\<close>

text \<open>
  \<^verbatim>\<open>JSON.stringify(value, null, space)\<close> as ECMAScript defines it, for values decoded from
  JSON. Properties are written in the order of the list, which is the order of insertion
  (JavaScript moves the keys that are array indices to the front; the model does not).
\<close>

definition quote_char :: "char \<Rightarrow> string" where
  "quote_char c =
     (if c = CHR 0x08 then [CHR 0x5C, CHR ''b'']
      else if c = CHR 0x09 then [CHR 0x5C, CHR ''t'']
      else if c = CHR 0x0A then [CHR 0x5C, CHR ''n'']
      else if c = CHR 0x0C then [CHR 0x5C, CHR ''f'']
      else if c = CHR 0x0D then [CHR 0x5C, CHR ''r'']
      else if c = CHR 0x22 then [CHR 0x5C, CHR 0x22]
      else if c = CHR 0x5C then [CHR 0x5C, CHR 0x5C]
      else if (of_char c :: nat) < 32
        then [CHR 0x5C, CHR ''u'', CHR ''0'', CHR ''0'',
              ''0123456789abcdef'' ! (of_char c div 16), ''0123456789abcdef'' ! (of_char c mod 16)]
      else [c])"

definition QuoteJSONString :: "string \<Rightarrow> string" where
  "QuoteJSONString s = [CHR 0x22] @ concat (map quote_char s) @ [CHR 0x22]"

definition wrap :: "string \<Rightarrow> string \<Rightarrow> string \<Rightarrow> string \<Rightarrow> string list \<Rightarrow> string" where
  "wrap opn cls gap stepback partial =
     (if partial = [] then opn @ cls
      else if gap = [] then opn @ join '','' partial @ cls
      else opn @ [CHR 0x0A] @ (stepback @ gap)
           @ join ('','' @ [CHR 0x0A] @ (stepback @ gap)) partial
           @ [CHR 0x0A] @ stepback @ cls)"

fun SerializeJSONProperty :: "string \<Rightarrow> string \<Rightarrow> jsval \<Rightarrow> string option" where
  "SerializeJSONProperty gap indent JUndefined = None"
| "SerializeJSONProperty gap indent JNull = Some ''null''"
| "SerializeJSONProperty gap indent (JBool b) = Some (if b then ''true'' else ''false'')"
| "SerializeJSONProperty gap indent (JNum n) =
     Some (case n of NaN \<Rightarrow> ''null'' | PosInfinity \<Rightarrow> ''null'' | NegInfinity \<Rightarrow> ''null''
           | _ \<Rightarrow> Number_toString n)"
| "SerializeJSONProperty gap indent (JStr s) = Some (QuoteJSONString s)"
| "SerializeJSONProperty gap indent (JArr xs) =
     Some (wrap ''['' '']'' gap indent
       (map (\<lambda>x. case SerializeJSONProperty gap (indent @ gap) x of
                   None \<Rightarrow> ''null'' | Some s \<Rightarrow> s) xs))"
| "SerializeJSONProperty gap indent (JObj kvs) =
     Some (wrap ''{'' ''}'' gap indent
       (concat (map (\<lambda>(k, v). case SerializeJSONProperty gap (indent @ gap) v of
                   None \<Rightarrow> []
                 | Some s \<Rightarrow> [QuoteJSONString k @ '':'' @ (if gap = [] then [] else '' '') @ s])
                kvs)))"

definition JSON_stringify :: "jsval \<Rightarrow> nat \<Rightarrow> string option" where
  "JSON_stringify v space = SerializeJSONProperty (replicate (min space 10) CHR '' '') [] v"

section \<open>Type validation functions\<close>

text \<open>
  The guards are conjunctions \<^verbatim>\<open>a && b\<close>, evaluated left to right: \<open>and_also\<close> evaluates
  its second argument only when the first is true, and an exception of either ends the
  evaluation. A guard returns \<open>Inr b\<close> when it answers and \<open>Inl e\<close> when it throws.
\<close>

definition and_also :: "exn + bool \<Rightarrow> exn + bool \<Rightarrow> exn + bool" where
  "and_also a b = (case a of Inl e \<Rightarrow> Inl e | Inr False \<Rightarrow> Inr False | Inr True \<Rightarrow> b)"

definition type_is :: "jsval \<Rightarrow> string \<Rightarrow> string \<Rightarrow> exn + bool" where
  \<comment> \<open>\<^verbatim>\<open>typeof args.k === t\<close>\<close>
  "type_is args k t = (case get_property args k of Inl e \<Rightarrow> Inl e | Inr v \<Rightarrow> Inr (typeof v = t))"

definition is_object :: "jsval \<Rightarrow> exn + bool" where
  \<comment> \<open>\<^verbatim>\<open>typeof args === 'object' && args !== null\<close>\<close>
  "is_object args = Inr (typeof args = ''object'' \<and> args \<noteq> JNull)"

definition isAccountInfoArg :: "jsval \<Rightarrow> exn + bool" where
  "isAccountInfoArg args =
     and_also (is_object args)
       (case get_property args ''account'' of
          Inl e \<Rightarrow> Inl e
        | Inr v \<Rightarrow> if v = JUndefined then Inr True else type_is args ''account'' ''number'')"

definition isSymbolPriceArg :: "jsval \<Rightarrow> exn + bool" where
  "isSymbolPriceArg args = and_also (is_object args) (type_is args ''symbol'' ''string'')"

definition isOrderArg :: "jsval \<Rightarrow> exn + bool" where
  "isOrderArg args =
     and_also (is_object args)
    (and_also (type_is args ''symbol'' ''string'')
    (and_also (type_is args ''type'' ''string'')
              (type_is args ''volume'' ''number'')))"

definition isModifyOrderArg :: "jsval \<Rightarrow> exn + bool" where
  "isModifyOrderArg args = and_also (is_object args) (type_is args ''ticket'' ''number'')"

definition isCloseOrderArg :: "jsval \<Rightarrow> exn + bool" where
  "isCloseOrderArg args = and_also (is_object args) (type_is args ''ticket'' ''number'')"

definition isRunOptimizationArg :: "jsval \<Rightarrow> exn + bool" where
  "isRunOptimizationArg args =
     and_also (is_object args)
    (and_also (type_is args ''symbol'' ''string'')
    (and_also (type_is args ''ea'' ''string'')
    (and_also (type_is args ''period'' ''string'')
    (and_also (type_is args ''date_from'' ''string'')
    (and_also (type_is args ''date_to'' ''string'')
    (and_also (type_is args ''deposit'' ''number'')
              (type_is args ''params'' ''object'')))))))"

definition isOptimizationIdArg :: "jsval \<Rightarrow> exn + bool" where
  "isOptimizationIdArg args =
     and_also (is_object args) (type_is args ''optimization_id'' ''string'')"

definition isSaveOptimizationResultsArg :: "jsval \<Rightarrow> exn + bool" where
  "isSaveOptimizationResultsArg args =
     and_also (is_object args) (type_is args ''optimization_id'' ''string'')"

section \<open>The tool registry\<close>

text \<open>
  The catalogue of tools, as both variants declare it: each tool has a name, a
  description and an input schema (the properties with their declared type, their allowed
  values when enumerated and their default, and the list of required properties).
  \<open>tools\<close> is the list of \<^verbatim>\<open>server.js\<close>; the list of \<^verbatim>\<open>mt5-server.ts\<close> starts with the
  same eight tools and adds the four optimization tools.
\<close>

record property_schema =
  p_type :: string
  p_enum :: "string list option"
  p_description :: string
  p_default :: "string option"

record tool =
  name :: string
  description :: string
  properties :: "(string \<times> property_schema) list"
  required :: "string list"

definition param :: "string \<Rightarrow> string \<Rightarrow> property_schema" where
  "param t d = \<lparr>p_type = t, p_enum = None, p_description = d, p_default = None\<rparr>"

definition tools :: "tool list" where
  \<open>tools =
    [\<lparr>name = ''get_account_info'',
      description = ''Get account information from MetaTrader 5'',
      properties =
        [(''account'', param ''number'' ''Account number (optional, uses default if not provided)'')],
      required = []\<rparr>,
     \<lparr>name = ''get_symbol_price'',
      description = ''Get current price for a symbol'',
      properties = [(''symbol'', param ''string'' ''Symbol name (e.g., "EURUSD", "BTCUSD")'')],
      required = [''symbol'']\<rparr>,
     \<lparr>name = ''get_open_positions'',
      description = ''Get all open positions'',
      properties = [],
      required = []\<rparr>,
     \<lparr>name = ''get_pending_orders'',
      description = ''Get all pending orders'',
      properties = [],
      required = []\<rparr>,
     \<lparr>name = ''create_order'',
      description = ''Create a new trading order'',
      properties =
        [(''symbol'', param ''string'' ''Symbol name (e.g., "EURUSD")''),
         (''type'', param ''string''
            ''Order type: "BUY", "SELL", "BUYLIMIT", "SELLLIMIT", "BUYSTOP", "SELLSTOP"''),
         (''volume'', param ''number'' ''Order volume in lots''),
         (''price'', param ''number'' ''Order price (required for limit and stop orders)''),
         (''sl'', param ''number'' ''Stop loss price (optional)''),
         (''tp'', param ''number'' ''Take profit price (optional)''),
         (''comment'', param ''string'' ''Order comment (optional)'')],
      required = [''symbol'', ''type'', ''volume'']\<rparr>,
     \<lparr>name = ''modify_order'',
      description = ''Modify stop loss or take profit for an order or position'',
      properties =
        [(''ticket'', param ''number'' ''Order or position ticket number''),
         (''sl'', param ''number'' ''New stop loss price''),
         (''tp'', param ''number'' ''New take profit price'')],
      required = [''ticket'']\<rparr>,
     \<lparr>name = ''close_position'',
      description = ''Close an open position'',
      properties = [(''ticket'', param ''number'' ''Position ticket number'')],
      required = [''ticket'']\<rparr>,
     \<lparr>name = ''delete_order'',
      description = ''Delete a pending order'',
      properties = [(''ticket'', param ''number'' ''Order ticket number'')],
      required = [''ticket'']\<rparr>]\<close>

definition optimization_tools :: "tool list" where
  \<open>optimization_tools =
    [\<lparr>name = ''run_optimization'',
      description = ''Start a strategy optimization run via the MT5 Flask API bridge'',
      properties =
        [(''symbol'', param ''string'' ''Symbol to optimize (e.g., "EURUSD")''),
         (''ea'', param ''string'' ''Expert Advisor file (e.g., "MyExpert.ex5")''),
         (''period'', param ''string'' ''Timeframe (e.g., "H1")''),
         (''date_from'', param ''string'' ''Start date (YYYY-MM-DD)''),
         (''date_to'', param ''string'' ''End date (YYYY-MM-DD)''),
         (''deposit'', param ''number'' ''Initial deposit''),
         (''params'', param ''object'' ''Optimization parameters (ranges/steps)''),
         (''optimization_mode'',
            \<lparr>p_type = ''string'', p_enum = Some [''genetic'', ''all_possible''],
             p_description = ''Optimization mode ("genetic" or "all_possible")'',
             p_default = Some ''genetic''\<rparr>),
         (''other_options'', param ''object'' ''Additional options (optional)'')],
      required =
        [''symbol'', ''ea'', ''period'', ''date_from'', ''date_to'', ''deposit'', ''params'']\<rparr>,
     \<lparr>name = ''get_optimization_status'',
      description = ''Query the status of a running optimization'',
      properties = [(''optimization_id'', param ''string'' ''Optimization run ID'')],
      required = [''optimization_id'']\<rparr>,
     \<lparr>name = ''get_optimization_results'',
      description = ''Fetch results/statistics of a completed optimization'',
      properties = [(''optimization_id'', param ''string'' ''Optimization run ID'')],
      required = [''optimization_id'']\<rparr>,
     \<lparr>name = ''save_optimization_results'',
      description = ''Save optimization results to a file (CSV/JSON)'',
      properties =
        [(''optimization_id'', param ''string'' ''Optimization run ID''),
         (''format'',
            \<lparr>p_type = ''string'', p_enum = Some [''csv'', ''json''],
             p_description = ''File format'', p_default = Some ''json''\<rparr>),
         (''path'', param ''string'' ''File path to save results (optional)'')],
      required = [''optimization_id'']\<rparr>]\<close>

definition Mt5Server_tools :: "tool list" where
  "Mt5Server_tools = tools @ optimization_tools"

definition property_json :: "property_schema \<Rightarrow> jsval" where
  "property_json p =
     JObj ([(''type'', JStr (p_type p))]
           @ (case p_enum p of None \<Rightarrow> [] | Some es \<Rightarrow> [(''enum'', JArr (map JStr es))])
           @ [(''description'', JStr (p_description p))]
           @ (case p_default p of None \<Rightarrow> [] | Some d \<Rightarrow> [(''default'', JStr d)]))"

definition tool_json :: "tool \<Rightarrow> jsval" where
  "tool_json t =
     JObj [(''name'', JStr (name t)),
           (''description'', JStr (description t)),
           (''inputSchema'',
              JObj [(''type'', JStr ''object''),
                    (''properties'', JObj (map (\<lambda>(k, p). (k, property_json p)) (properties t))),
                    (''required'', JArr (map JStr (required t)))])]"

section \<open>The backend gateway\<close>

text \<open>
  Each client is an axios instance bound to one backend. A call names the client, the
  HTTP operation, the path and, for POST and PUT, the body. The backends are outside the
  program: \<open>backend\<close> says what comes back for a request, a response with a status and a
  body or no response at all (connection refused, timeout, DNS failure) with the text of
  the transport error. With its default settings axios resolves to the body when the
  status is 2xx and rejects with an error otherwise. A tool call issues at most one
  request, so a function of the request is all that a call can see of the backends.
\<close>

datatype BackendTarget = apiClient | flaskClient

datatype http_verb = GET | POST | PUT | DELETE

record http_request =
  client :: BackendTarget
  verb :: http_verb
  url :: string
  body :: "jsval option"

datatype http_outcome = HttpResponse nat jsval | NoResponse string

type_synonym backend = "http_request \<Rightarrow> http_outcome"

definition axios_request :: "backend \<Rightarrow> http_request \<Rightarrow> exn + jsval" where
  "axios_request backend req =
     (case backend req of
        HttpResponse status payload \<Rightarrow>
          if 200 \<le> status \<and> status < 300 then Inr payload
          else Inl (AxiosError (''Request failed with status code '' @ show_nat status)
                      (Some (status, payload)))
      | NoResponse msg \<Rightarrow> Inl (AxiosError msg None))"

text \<open>
  A handler returns what it returns or throws, together with the HTTP requests it
  issued, in order.
\<close>

type_synonym 'a traced = "(exn + 'a) \<times> http_request list"

definition text_result :: "jsval \<Rightarrow> jsval" where
  \<comment> \<open>\<^verbatim>\<open>{ content: [{ type: 'text', text: JSON.stringify(response.data, null, 2) }] }\<close>\<close>
  "text_result payload =
     JObj [(''content'',
            JArr [JObj [(''type'', JStr ''text''),
                        (''text'', case JSON_stringify payload 2 of
                                     None \<Rightarrow> JUndefined | Some s \<Rightarrow> JStr s)]])]"

definition respond :: "backend \<Rightarrow> http_request \<Rightarrow> jsval traced" where
  \<comment> \<open>the common tail of every handler: await the call, wrap the body of the response\<close>
  "respond backend req =
     (case axios_request backend req of
        Inl e \<Rightarrow> (Inl e, [req])
      | Inr payload \<Rightarrow> (Inr (text_result payload), [req]))"

definition guarded :: "exn + bool \<Rightarrow> exn \<Rightarrow> jsval traced \<Rightarrow> jsval traced" where
  \<comment> \<open>\<^verbatim>\<open>if (!guard(args)) throw error; ...\<close>\<close>
  "guarded g error rest =
     (case g of Inl e \<Rightarrow> (Inl e, []) | Inr False \<Rightarrow> (Inl error, []) | Inr True \<Rightarrow> rest)"

definition reading :: "jsval \<Rightarrow> string \<Rightarrow> (jsval \<Rightarrow> jsval traced) \<Rightarrow> jsval traced" where
  \<comment> \<open>read \<^verbatim>\<open>v.k\<close> and go on with its value; a throwing read ends the handler\<close>
  "reading v k rest = (case get_property v k of Inl e \<Rightarrow> (Inl e, []) | Inr x \<Rightarrow> rest x)"

definition interpolating :: "jsval \<Rightarrow> (string \<Rightarrow> jsval traced) \<Rightarrow> jsval traced" where
  \<comment> \<open>a value interpolated into a template literal, with what follows when it converts\<close>
  "interpolating v rest = (case ToString v of Inl e \<Rightarrow> (Inl e, []) | Inr s \<Rightarrow> rest s)"

section \<open>The handlers\<close>

text \<open>
  The eight account handlers are the same in both variants but for the exception thrown
  on invalid arguments: \<^verbatim>\<open>new Error(msg)\<close> in \<^verbatim>\<open>server.js\<close>,
  \<^verbatim>\<open>new McpError(ErrorCode.InvalidParams, msg)\<close> in \<^verbatim>\<open>mt5-server.ts\<close>. The model takes
  the constructor as the parameter \<open>invalid\<close>.
\<close>

definition handleGetAccountInfo :: "(string \<Rightarrow> exn) \<Rightarrow> backend \<Rightarrow> jsval \<Rightarrow> jsval traced" where
  "handleGetAccountInfo invalid backend args =
     guarded (isAccountInfoArg args) (invalid ''Invalid account info arguments'')
       (reading args ''account'' (\<lambda>account.
          if truthy account
          then interpolating account (\<lambda>account.
                 respond backend
                   \<lparr>client = apiClient, verb = GET, url = ''/account/'' @ account, body = None\<rparr>)
          else respond backend
                 \<lparr>client = apiClient, verb = GET, url = ''/account'', body = None\<rparr>))"

definition handleGetSymbolPrice :: "(string \<Rightarrow> exn) \<Rightarrow> backend \<Rightarrow> jsval \<Rightarrow> jsval traced" where
  "handleGetSymbolPrice invalid backend args =
     guarded (isSymbolPriceArg args) (invalid ''Invalid symbol price arguments'')
       (reading args ''symbol'' (\<lambda>symbol.
        interpolating symbol (\<lambda>symbol.
          respond backend
            \<lparr>client = apiClient, verb = GET, url = ''/symbol/'' @ symbol, body = None\<rparr>)))"

definition handleGetOpenPositions :: "backend \<Rightarrow> jsval traced" where
  "handleGetOpenPositions backend =
     respond backend \<lparr>client = apiClient, verb = GET, url = ''/positions'', body = None\<rparr>"

definition handleGetPendingOrders :: "backend \<Rightarrow> jsval traced" where
  "handleGetPendingOrders backend =
     respond backend \<lparr>client = apiClient, verb = GET, url = ''/orders'', body = None\<rparr>"

definition handleCreateOrder :: "(string \<Rightarrow> exn) \<Rightarrow> backend \<Rightarrow> jsval \<Rightarrow> jsval traced" where
  "handleCreateOrder invalid backend args =
     guarded (isOrderArg args) (invalid ''Invalid order arguments'')
       (respond backend \<lparr>client = apiClient, verb = POST, url = ''/order'', body = Some args\<rparr>)"

definition handleModifyOrder :: "(string \<Rightarrow> exn) \<Rightarrow> backend \<Rightarrow> jsval \<Rightarrow> jsval traced" where
  "handleModifyOrder invalid backend args =
     guarded (isModifyOrderArg args) (invalid ''Invalid modify order arguments'')
       (reading args ''ticket'' (\<lambda>ticket.
        interpolating ticket (\<lambda>ticket.
        reading args ''sl'' (\<lambda>sl.
        reading args ''tp'' (\<lambda>tp.
          respond backend
            \<lparr>client = apiClient, verb = PUT, url = ''/order/'' @ ticket,
             body = Some (JObj [(''sl'', sl), (''tp'', tp)])\<rparr>)))))"

definition handleClosePosition :: "(string \<Rightarrow> exn) \<Rightarrow> backend \<Rightarrow> jsval \<Rightarrow> jsval traced" where
  "handleClosePosition invalid backend args =
     guarded (isCloseOrderArg args) (invalid ''Invalid close position arguments'')
       (reading args ''ticket'' (\<lambda>ticket.
        interpolating ticket (\<lambda>ticket.
          respond backend
            \<lparr>client = apiClient, verb = DELETE, url = ''/position/'' @ ticket, body = None\<rparr>)))"

definition handleDeleteOrder :: "(string \<Rightarrow> exn) \<Rightarrow> backend \<Rightarrow> jsval \<Rightarrow> jsval traced" where
  "handleDeleteOrder invalid backend args =
     guarded (isCloseOrderArg args) (invalid ''Invalid delete order arguments'')
       (reading args ''ticket'' (\<lambda>ticket.
        interpolating ticket (\<lambda>ticket.
          respond backend
            \<lparr>client = apiClient, verb = DELETE, url = ''/order/'' @ ticket, body = None\<rparr>)))"

text \<open>The optimization handlers exist in \<^verbatim>\<open>mt5-server.ts\<close> only.\<close>

definition handleRunOptimization :: "backend \<Rightarrow> jsval \<Rightarrow> jsval traced" where
  "handleRunOptimization backend args =
     guarded (isRunOptimizationArg args)
       (McpError InvalidParams ''Invalid run_optimization arguments'')
       (respond backend
          \<lparr>client = flaskClient, verb = POST, url = ''/optimize'', body = Some args\<rparr>)"

definition handleGetOptimizationStatus :: "backend \<Rightarrow> jsval \<Rightarrow> jsval traced" where
  "handleGetOptimizationStatus backend args =
     guarded (isOptimizationIdArg args)
       (McpError InvalidParams ''Invalid get_optimization_status arguments'')
       (reading args ''optimization_id'' (\<lambda>optimization_id.
        interpolating optimization_id (\<lambda>optimization_id.
          respond backend
            \<lparr>client = flaskClient, verb = GET,
             url = ''/optimization_status/'' @ optimization_id, body = None\<rparr>)))"

definition handleGetOptimizationResults :: "backend \<Rightarrow> jsval \<Rightarrow> jsval traced" where
  "handleGetOptimizationResults backend args =
     guarded (isOptimizationIdArg args)
       (McpError InvalidParams ''Invalid get_optimization_results arguments'')
       (reading args ''optimization_id'' (\<lambda>optimization_id.
        interpolating optimization_id (\<lambda>optimization_id.
          respond backend
            \<lparr>client = flaskClient, verb = GET,
             url = ''/optimization_results/'' @ optimization_id, body = None\<rparr>)))"

definition handleSaveOptimizationResults :: "backend \<Rightarrow> jsval \<Rightarrow> jsval traced" where
  "handleSaveOptimizationResults backend args =
     guarded (isSaveOptimizationResultsArg args)
       (McpError InvalidParams ''Invalid save_optimization_results arguments'')
       (respond backend
          \<lparr>client = flaskClient, verb = POST, url = ''/save_results'', body = Some args\<rparr>)"

section \<open>The dispatchers\<close>

text \<open>
  What both variants make of an error of the HTTP client:
  \<^verbatim>\<open>error.response?.data?.message || error.message\<close>, interpolated into the text of one
  content block of a result marked \<^verbatim>\<open>isError\<close>. The message of a response is any decoded
  value, so the interpolation can throw; it stands in the \<^verbatim>\<open>catch\<close> block, and what it
  throws leaves the function.
\<close>

definition api_error_message :: "string \<Rightarrow> (nat \<times> jsval) option \<Rightarrow> jsval" where
  "api_error_message msg response =
     (let m = (case response of
                 None \<Rightarrow> JUndefined
               | Some (status, payload) \<Rightarrow>
                   if payload = JUndefined \<or> payload = JNull then JUndefined
                   else (case get_property payload ''message'' of
                           Inl e \<Rightarrow> JUndefined | Inr v \<Rightarrow> v))
      in if truthy m then m else JStr msg)"

definition api_error_result :: "string \<Rightarrow> (nat \<times> jsval) option \<Rightarrow> exn + jsval" where
  "api_error_result msg response =
     (case ToString (api_error_message msg response) of
        Inl e \<Rightarrow> Inl e
      | Inr message \<Rightarrow>
          Inr (JObj [(''content'',
                      JArr [JObj [(''type'', JStr ''text''),
                                  (''text'', JStr (''MetaTrader 5 API error: '' @ message))]]),
                     (''isError'', JBool True)]))"

subsection \<open>mt5-server.ts\<close>

text \<open>
  The handler registered for \<^verbatim>\<open>CallToolRequestSchema\<close>. The SDK has checked the request
  against that schema, so the name is a string; the arguments are any value, or
  \<^verbatim>\<open>undefined\<close> when absent. \<open>Inl\<close> is an exception thrown to the SDK, which answers the
  request with a JSON-RPC error of the code and message of a McpError.
\<close>

definition Mt5Server_dispatch :: "backend \<Rightarrow> string \<Rightarrow> jsval \<Rightarrow> jsval traced" where
  "Mt5Server_dispatch backend nm args =
     (if nm = ''get_account_info'' then handleGetAccountInfo (McpError InvalidParams) backend args
      else if nm = ''get_symbol_price'' then handleGetSymbolPrice (McpError InvalidParams) backend args
      else if nm = ''get_open_positions'' then handleGetOpenPositions backend
      else if nm = ''get_pending_orders'' then handleGetPendingOrders backend
      else if nm = ''create_order'' then handleCreateOrder (McpError InvalidParams) backend args
      else if nm = ''modify_order'' then handleModifyOrder (McpError InvalidParams) backend args
      else if nm = ''close_position'' then handleClosePosition (McpError InvalidParams) backend args
      else if nm = ''delete_order'' then handleDeleteOrder (McpError InvalidParams) backend args
      else if nm = ''run_optimization'' then handleRunOptimization backend args
      else if nm = ''get_optimization_status'' then handleGetOptimizationStatus backend args
      else if nm = ''get_optimization_results'' then handleGetOptimizationResults backend args
      else if nm = ''save_optimization_results'' then handleSaveOptimizationResults backend args
      else (Inl (McpError MethodNotFound (''Unknown tool: '' @ nm)), []))"

definition CallToolRequest_handler :: "backend \<Rightarrow> string \<Rightarrow> jsval \<Rightarrow> jsval traced" where
  "CallToolRequest_handler backend nm args =
     (case Mt5Server_dispatch backend nm args of
        (Inr result, issued) \<Rightarrow> (Inr result, issued)
      | (Inl error, issued) \<Rightarrow>
          (case error of
             AxiosError msg response \<Rightarrow> (api_error_result msg response, issued)
           | McpError code msg \<Rightarrow> (Inl error, issued)
           | _ \<Rightarrow> (Inl (McpError InternalError (''Unexpected error: '' @ message_of error)),
                   issued)))"

definition ListToolsRequest_handler :: "jsval" where
  "ListToolsRequest_handler = JObj [(''tools'', JArr (map tool_json Mt5Server_tools))]"

subsection \<open>server.js\<close>

definition result_envelope :: "jsval \<Rightarrow> jsval \<Rightarrow> jsval" where
  "result_envelope rid result =
     JObj [(''jsonrpc'', JStr ''2.0''), (''id'', rid), (''result'', result)]"

definition error_envelope :: "jsval \<Rightarrow> int \<Rightarrow> string \<Rightarrow> jsval" where
  "error_envelope rid code msg =
     JObj [(''jsonrpc'', JStr ''2.0''), (''id'', rid),
           (''error'', JObj [(''code'', JNum (Integral code)), (''message'', JStr msg)])]"

text \<open>
  The body of the \<^verbatim>\<open>try\<close> of \<^verbatim>\<open>call_tool\<close>: the inner switch on \<^verbatim>\<open>request.params.name\<close>
  (compared with \<^verbatim>\<open>===\<close>, so only a string matches), returning the envelope of the
  result, or the envelope of an unknown tool from the default branch. The message of that
  envelope interpolates the name, which is any value of the request: a conversion that
  throws is thrown inside the \<^verbatim>\<open>try\<close>.
\<close>

definition enveloped :: "jsval \<Rightarrow> jsval traced \<Rightarrow> jsval traced" where
  \<comment> \<open>\<^verbatim>\<open>result = await handler(...); break;\<close> and then \<^verbatim>\<open>return { jsonrpc: '2.0', id, result }\<close>\<close>
  "enveloped rid r =
     (case r of (Inl e, issued) \<Rightarrow> (Inl e, issued)
              | (Inr result, issued) \<Rightarrow> (Inr (result_envelope rid result), issued))"

definition call_tool :: "backend \<Rightarrow> jsval \<Rightarrow> jsval \<Rightarrow> jsval traced" where
  "call_tool backend request rid =
     reading request ''params'' (\<lambda>params.
     reading params ''name'' (\<lambda>nm.
       if nm = JStr ''get_account_info''
         then enveloped rid (reading params ''arguments'' (handleGetAccountInfo Error backend))
       else if nm = JStr ''get_symbol_price''
         then enveloped rid (reading params ''arguments'' (handleGetSymbolPrice Error backend))
       else if nm = JStr ''get_open_positions''
         then enveloped rid (handleGetOpenPositions backend)
       else if nm = JStr ''get_pending_orders''
         then enveloped rid (handleGetPendingOrders backend)
       else if nm = JStr ''create_order''
         then enveloped rid (reading params ''arguments'' (handleCreateOrder Error backend))
       else if nm = JStr ''modify_order''
         then enveloped rid (reading params ''arguments'' (handleModifyOrder Error backend))
       else if nm = JStr ''close_position''
         then enveloped rid (reading params ''arguments'' (handleClosePosition Error backend))
       else if nm = JStr ''delete_order''
         then enveloped rid (reading params ''arguments'' (handleDeleteOrder Error backend))
       else interpolating nm (\<lambda>nm.
              (Inr (error_envelope rid (- 32601) (''Unknown tool: '' @ nm)), []))))"

text \<open>
  \<^verbatim>\<open>request.id\<close> is read where each envelope is built; the model reads it once, after
  \<^verbatim>\<open>request.method\<close> (a read that cannot fail once that of the method has succeeded). The
  \<^verbatim>\<open>catch\<close> of \<^verbatim>\<open>call_tool\<close> covers the body above; what the interpolations of the \<^verbatim>\<open>catch\<close>
  block itself and of the default branch of the outer switch throw leaves the function.
\<close>

definition handleMcpRequest :: "backend \<Rightarrow> jsval \<Rightarrow> jsval traced" where
  "handleMcpRequest backend request =
     reading request ''method'' (\<lambda>m.
     reading request ''id'' (\<lambda>rid.
       if m = JStr ''list_tools''
         then (Inr (result_envelope rid (JObj [(''tools'', JArr (map tool_json tools))])), [])
       else if m = JStr ''call_tool''
         then (case call_tool backend request rid of
                 (Inr envelope, issued) \<Rightarrow> (Inr envelope, issued)
               | (Inl error, issued) \<Rightarrow>
                   (case error of
                      AxiosError msg response \<Rightarrow>
                        (case api_error_result msg response of
                           Inl e \<Rightarrow> (Inl e, issued)
                         | Inr result \<Rightarrow> (Inr (result_envelope rid result), issued))
                    | _ \<Rightarrow>
                        (Inr (error_envelope rid (- 32603)
                                (''Unexpected error: '' @ message_of error)), issued)))
       else if m = JStr ''initialize''
         then (Inr (result_envelope rid
                      (JObj [(''success'', JBool True),
                             (''serverInfo'', JObj [(''name'', JStr ''metatrader5-mcp-server''),
                                                    (''version'', JStr ''1.0.0'')]),
                             (''capabilities'', JObj [(''tools'', JObj [])])])), [])
       else interpolating m (\<lambda>m.
              (Inr (error_envelope rid (- 32601) (''Method not found: '' @ m)), []))))"

section \<open>The transport framer of server.js\<close>

text \<open>
  The listener on standard input appends each chunk, converted to a string, to the buffer
  and then extracts complete messages in a loop. The regular expression
  \<^verbatim>\<open>/Content-Length: (\d+)\r\n\r\n/\<close> is matched at the leftmost position of the buffer
  where it matches; \<open>header_match\<close> returns that position, the digits and the length of
  the match. \<^verbatim>\<open>JSON.parse\<close> belongs to the runtime and is a parameter of the model: it
  returns the decoded value or throws. What the listener does is recorded as a list of
  events: a frame written to standard output, an error logged to the diagnostic stream,
  an HTTP request issued. Messages are handled one after the other, as they are when no
  chunk arrives while a call to a backend is awaited.
\<close>

datatype event = Written string | Logged exn | Requested http_request

definition is_digit :: "char \<Rightarrow> bool" where
  "is_digit c = (c \<in> set ''0123456789'')"

definition parseInt :: "string \<Rightarrow> nat" where
  "parseInt ds = foldl (\<lambda>n c. 10 * n + (of_char c - 48)) 0 ds"

definition CRLF2 :: string where
  "CRLF2 = [CHR 0x0D, CHR 0x0A, CHR 0x0D, CHR 0x0A]"

definition match_here :: "string \<Rightarrow> (string \<times> nat) option" where
  "match_here s =
     (if take 16 s = ''Content-Length: '' then
        (let ds = takeWhile is_digit (drop 16 s) in
         if ds \<noteq> [] \<and> take 4 (drop (16 + length ds) s) = CRLF2
         then Some (ds, 16 + length ds + 4) else None)
      else None)"

fun header_match :: "string \<Rightarrow> (nat \<times> string \<times> nat) option" where
  "header_match [] = None"
| "header_match (c # cs) =
     (case match_here (c # cs) of
        Some (ds, n) \<Rightarrow> Some (0, ds, n)
      | None \<Rightarrow> (case header_match cs of
                   None \<Rightarrow> None
                 | Some (i, ds, n) \<Rightarrow> Some (Suc i, ds, n)))"

text \<open>The body of the \<^verbatim>\<open>try\<close> of the loop, and its \<^verbatim>\<open>catch\<close>, for one extracted payload.\<close>

definition process_message :: "(string \<Rightarrow> exn + jsval) \<Rightarrow> backend \<Rightarrow> string \<Rightarrow> event list" where
  "process_message parse backend content =
     (case parse content of
        Inl e \<Rightarrow> [Logged e]
      | Inr request \<Rightarrow>
          (case handleMcpRequest backend request of
             (Inl e, issued) \<Rightarrow> map Requested issued @ [Logged e]
           | (Inr response, issued) \<Rightarrow>
               map Requested issued @
               (case JSON_stringify response 0 of
                  None \<Rightarrow>
                    [Logged (TypeError (''Cannot read properties of undefined (reading ''
                                        @ [CHR 0x27] @ ''length'' @ [CHR 0x27] @ '')''))]
                | Some responseContent \<Rightarrow>
                    [Written (''Content-Length: '' @ show_nat (length responseContent) @ CRLF2
                              @ responseContent)])))"

lemma header_match_pos: "header_match s = Some (i, ds, n) \<Longrightarrow> 0 < n"
  by (induction s arbitrary: i) (auto simp: match_here_def Let_def split: option.splits if_splits)

text \<open>
  The loop \<^verbatim>\<open>while (true)\<close>: it returns the buffer it leaves and the events of the
  messages it extracted. Each round that does not leave the loop shortens the buffer.
\<close>

function drain :: "(string \<Rightarrow> exn + jsval) \<Rightarrow> backend \<Rightarrow> string \<Rightarrow> string \<times> event list" where
  "drain parse backend buffer =
     (case header_match buffer of
        None \<Rightarrow> (buffer, [])
      | Some (index, ds, n) \<Rightarrow>
          (let contentLength = parseInt ds;
               headerEndIndex = index + n;
               contentEndIndex = headerEndIndex + contentLength
           in if length buffer < contentEndIndex then (buffer, [])
              else (let content = take contentLength (drop headerEndIndex buffer);
                        rest = drain parse backend (drop contentEndIndex buffer)
                    in (fst rest, process_message parse backend content @ snd rest))))"
  by pat_completeness auto
termination
  by (relation "measure (\<lambda>(parse, backend, buffer). length buffer)")
     (auto dest: header_match_pos)

declare drain.simps [simp del]

definition on_data ::
    "(string \<Rightarrow> exn + jsval) \<Rightarrow> backend \<Rightarrow> string \<Rightarrow> string \<Rightarrow> string \<times> event list" where
  "on_data parse backend buffer chunk = drain parse backend (buffer @ chunk)"

text \<open>The listener over a sequence of chunks, starting from the given buffer.\<close>

fun feed :: "(string \<Rightarrow> exn + jsval) \<Rightarrow> backend \<Rightarrow> string \<Rightarrow> string list \<Rightarrow> string \<times> event list" where
  "feed parse backend buffer [] = (buffer, [])"
| "feed parse backend buffer (chunk # chunks) =
     (let now = on_data parse backend buffer chunk;
          later = feed parse backend (fst now) chunks
      in (fst later, snd now @ snd later))"

section \<open>Notions used in the statements\<close>

text \<open>A value that passes \<^verbatim>\<open>typeof v === 'object' && v !== null\<close>, and a property of it.\<close>

definition is_obj :: "jsval \<Rightarrow> bool" where
  "is_obj v = (typeof v = ''object'' \<and> v \<noteq> JNull)"

definition field :: "jsval \<Rightarrow> string \<Rightarrow> jsval" where
  "field v k = (case v of JObj kvs \<Rightarrow> (case map_of kvs k of None \<Rightarrow> JUndefined | Some x \<Rightarrow> x)
                | _ \<Rightarrow> JUndefined)"

text \<open>The arguments of a call omit a parameter: they are no object, or an object without it.\<close>

definition omits :: "jsval \<Rightarrow> string \<Rightarrow> bool" where
  "omits args p = (case args of JObj kvs \<Rightarrow> map_of kvs p = None | _ \<Rightarrow> True)"

text \<open>
  A request of \<^verbatim>\<open>server.js\<close> that calls the tool \<open>nm\<close> with the arguments \<open>args\<close> under the
  request id \<open>rid\<close>.
\<close>

definition is_tool_call :: "jsval \<Rightarrow> jsval \<Rightarrow> string \<Rightarrow> jsval \<Rightarrow> bool" where
  "is_tool_call request rid nm args =
     (get_property request ''method'' = Inr (JStr ''call_tool'')
      \<and> get_property request ''id'' = Inr rid
      \<and> (case get_property request ''params'' of
            Inl e \<Rightarrow> False
          | Inr params \<Rightarrow> get_property params ''name'' = Inr (JStr nm)
                          \<and> get_property params ''arguments'' = Inr args))"

text \<open>The request that calls the tool \<open>nm\<close> with the arguments \<open>args\<close> under the id \<open>rid\<close>.\<close>

definition tool_call_request :: "jsval \<Rightarrow> string \<Rightarrow> jsval \<Rightarrow> jsval" where
  "tool_call_request rid nm args =
     JObj [(''jsonrpc'', JStr ''2.0''), (''id'', rid), (''method'', JStr ''call_tool''),
           (''params'', JObj [(''name'', JStr nm), (''arguments'', args)])]"

text \<open>
  What a handler comes to: it has issued one request and returns or throws what \<open>respond\<close>
  makes of the answer, or it has issued none and throws one of the exceptions \<open>thrown\<close>.
\<close>

definition settles :: "backend \<Rightarrow> (exn \<Rightarrow> bool) \<Rightarrow> jsval traced \<Rightarrow> bool" where
  "settles backend thrown r =
     ((\<exists>req. r = respond backend req) \<or> (\<exists>e. thrown e \<and> r = (Inl e, [])))"

text \<open>
  A result with a single content block, a text block, marked as an error; and the
  arguments used as examples.
\<close>

definition error_result :: "string \<Rightarrow> jsval" where
  "error_result txt =
     JObj [(''content'', JArr [JObj [(''type'', JStr ''text''), (''text'', JStr txt)]]),
           (''isError'', JBool True)]"

definition example_order :: jsval where
  "example_order = JObj [(''symbol'', JStr ''EURUSD''), (''type'', JStr ''BUY''),
                         (''volume'', JNum (Decimal ''0.1''))]"

definition example_optimization :: "string \<Rightarrow> jsval" where
  "example_optimization mode =
     JObj [(''symbol'', JStr ''EURUSD''), (''ea'', JStr ''MyExpert.ex5''), (''period'', JStr ''H1''),
           (''date_from'', JStr ''2024-01-01''), (''date_to'', JStr ''2024-06-30''),
           (''deposit'', JNum (Integral 10000)), (''params'', JObj []),
           (''optimization_mode'', JStr mode)]"

text \<open>
  For the examples of the framer: a decoder that stands for \<^verbatim>\<open>JSON.parse\<close> on the two
  payloads used (it decodes the one and throws on every other), and a payload with one
  character outside ASCII, \<^verbatim>\<open>{"id":1,"method":"caf\<close>e-acute\<^verbatim>\<open>"}\<close>.
\<close>

definition example_parse :: "string \<Rightarrow> exn + jsval" where
  \<open>example_parse s =
     (if s = ''{"id":1,"method":"initialize"}''
      then Inr (JObj [(''id'', JNum (Integral 1)), (''method'', JStr ''initialize'')])
      else Inl (SyntaxError ''Unexpected token''))\<close>

definition example_accented :: string where
  \<open>example_accented = ''{"id":1,"method":"caf'' @ [CHR 0xE9] @ ''"}''\<close>

text \<open>
  A payload that is no JSON text and holds one character outside ASCII, \<^verbatim>\<open>{oops\<close>e-acute;
  and an error body whose \<^verbatim>\<open>message\<close> is an object with a property \<^verbatim>\<open>toString\<close> of its
  own, \<^verbatim>\<open>{"message": {"toString": 1}}\<close>.
\<close>

definition example_malformed :: string where
  \<open>example_malformed = ''{oops'' @ [CHR 0xE9]\<close>

definition example_unconvertible :: jsval where
  "example_unconvertible = JObj [(''message'', JObj [(''toString'', JNum (Integral 1))])]"

text \<open>
  A frame as the loop reads it: the header gives the length of the payload in units of
  the string. \<open>byteLength\<close> is the length of a string in bytes of UTF-8 (a unit below 128
  is one byte, a unit from 128 to 255 is two), and \<open>frame_bytes\<close> the frame whose header
  gives that length.
\<close>

definition frame :: "string \<Rightarrow> string" where
  "frame payload = ''Content-Length: '' @ show_nat (length payload) @ CRLF2 @ payload"

definition byteLength :: "string \<Rightarrow> nat" where
  "byteLength s = sum_list (map (\<lambda>c. if (of_char c :: nat) < 128 then 1 else 2) s)"

definition frame_bytes :: "string \<Rightarrow> string" where
  "frame_bytes payload = ''Content-Length: '' @ show_nat (byteLength payload) @ CRLF2 @ payload"

section \<open>The validation functions never throw\<close>

lemma is_obj_cases: "is_obj v \<longleftrightarrow> (\<exists>xs. v = JArr xs) \<or> (\<exists>kvs. v = JObj kvs)"
  by (cases v) (simp_all add: is_obj_def typeof_def)

lemma get_property_obj: "is_obj v \<Longrightarrow> get_property v k = Inr (field v k)"
  by (cases v) (simp_all add: is_obj_def typeof_def get_property_def field_def)

lemma type_is_obj: "is_obj v \<Longrightarrow> type_is v k t = Inr (typeof (field v k) = t)"
  by (simp add: type_is_def get_property_obj)

lemma and_also_Inr: "and_also (Inr a) (Inr b) = Inr (a \<and> b)"
  by (cases a) (simp_all add: and_also_def)

lemma guard_obj: "and_also (is_object v) g = (if is_obj v then g else Inr False)"
  by (auto simp: and_also_def is_object_def is_obj_def split: bool.splits)

lemma isAccountInfoArg_eq:
  "isAccountInfoArg v =
     Inr (is_obj v \<and> (field v ''account'' = JUndefined \<or> typeof (field v ''account'') = ''number''))"
  by (simp add: isAccountInfoArg_def guard_obj get_property_obj type_is_obj)

lemma isSymbolPriceArg_eq:
  "isSymbolPriceArg v = Inr (is_obj v \<and> typeof (field v ''symbol'') = ''string'')"
  by (simp add: isSymbolPriceArg_def guard_obj type_is_obj)

lemma isOrderArg_eq:
  "isOrderArg v = Inr (is_obj v \<and> typeof (field v ''symbol'') = ''string''
      \<and> typeof (field v ''type'') = ''string'' \<and> typeof (field v ''volume'') = ''number'')"
  by (simp add: isOrderArg_def guard_obj type_is_obj and_also_Inr)

lemma isModifyOrderArg_eq:
  "isModifyOrderArg v = Inr (is_obj v \<and> typeof (field v ''ticket'') = ''number'')"
  by (simp add: isModifyOrderArg_def guard_obj type_is_obj)

lemma isCloseOrderArg_eq:
  "isCloseOrderArg v = Inr (is_obj v \<and> typeof (field v ''ticket'') = ''number'')"
  by (simp add: isCloseOrderArg_def guard_obj type_is_obj)

lemma isRunOptimizationArg_eq:
  "isRunOptimizationArg v = Inr (is_obj v \<and> typeof (field v ''symbol'') = ''string''
      \<and> typeof (field v ''ea'') = ''string'' \<and> typeof (field v ''period'') = ''string''
      \<and> typeof (field v ''date_from'') = ''string'' \<and> typeof (field v ''date_to'') = ''string''
      \<and> typeof (field v ''deposit'') = ''number'' \<and> typeof (field v ''params'') = ''object'')"
  by (simp add: isRunOptimizationArg_def guard_obj type_is_obj and_also_Inr)

lemma isOptimizationIdArg_eq:
  "isOptimizationIdArg v = Inr (is_obj v \<and> typeof (field v ''optimization_id'') = ''string'')"
  by (simp add: isOptimizationIdArg_def guard_obj type_is_obj)

lemma isSaveOptimizationResultsArg_eq:
  "isSaveOptimizationResultsArg v =
     Inr (is_obj v \<and> typeof (field v ''optimization_id'') = ''string'')"
  by (simp add: isSaveOptimizationResultsArg_def guard_obj type_is_obj)

lemmas guard_eqs = isAccountInfoArg_eq isSymbolPriceArg_eq isOrderArg_eq isModifyOrderArg_eq
  isCloseOrderArg_eq isRunOptimizationArg_eq isOptimizationIdArg_eq
  isSaveOptimizationResultsArg_eq

lemmas handler_defs = handleGetAccountInfo_def handleGetSymbolPrice_def
  handleGetOpenPositions_def handleGetPendingOrders_def handleCreateOrder_def
  handleModifyOrder_def handleClosePosition_def handleDeleteOrder_def
  handleRunOptimization_def handleGetOptimizationStatus_def
  handleGetOptimizationResults_def handleSaveOptimizationResults_def

subsection \<open>Basic facts\<close>

lemma typeof_simps [simp]:
  "typeof JUndefined = ''undefined''" "typeof JNull = ''object''" "typeof (JBool b) = ''boolean''"
  "typeof (JNum n) = ''number''" "typeof (JStr s) = ''string''" "typeof (JArr xs) = ''object''"
  "typeof (JObj kvs) = ''object''"
  by (simp_all add: typeof_def)

lemma guarded_simps [simp]:
  "guarded (Inr False) e rest = (Inl e, [])" "guarded (Inr True) e rest = rest"
  by (simp_all add: guarded_def)

lemma reading_obj [simp]: "is_obj v \<Longrightarrow> reading v k rest = rest (field v k)"
  by (simp add: reading_def get_property_obj)

lemma interpolating_simps [simp]:
  "interpolating (JStr s) rest = rest s"
  "interpolating (JNum n) rest = rest (Number_toString n)"
  by (simp_all add: interpolating_def)

lemma interpolating_typed:
  "typeof v = ''string'' \<or> typeof v = ''number'' \<Longrightarrow> \<exists>s. interpolating v rest = rest s"
  by (cases v) (auto simp: typeof_def)

lemma snd_respond [simp]: "snd (respond backend req) = [req]"
  by (simp add: respond_def split: sum.splits)

lemma truthy_simps [simp]:
  "truthy JUndefined = False" "truthy JNull = False" "truthy (JBool b) = b"
  "truthy (JStr s) = (s \<noteq> [])" "truthy (JNum (Integral i)) = (i \<noteq> 0)"
  "truthy (JNum NegZero) = False" "truthy (JNum NaN) = False"
  "truthy (JArr xs) = True" "truthy (JObj kvs) = True"
  by (simp_all add: truthy_def)

lemma field_eval [simp]:
  "field (JObj kvs) k = (case map_of kvs k of None \<Rightarrow> JUndefined | Some x \<Rightarrow> x)"
  "field JUndefined k = JUndefined" "field JNull k = JUndefined"
  "field (JStr s) k = JUndefined" "field (JArr xs) k = JUndefined"
  by (simp_all add: field_def)

lemma is_obj_simps [simp]:
  "is_obj (JObj kvs)" "is_obj (JArr xs)" "\<not> is_obj JUndefined" "\<not> is_obj JNull"
  "\<not> is_obj (JStr s)" "\<not> is_obj (JNum n)" "\<not> is_obj (JBool b)"
  by (simp_all add: is_obj_def)

lemma if_cases: "P x \<Longrightarrow> P y \<Longrightarrow> P (if c then x else y)"
  by simp

subsection \<open>Totality\<close>

text \<open>
  C10. Every validation function answers for every value: applied to \<^verbatim>\<open>null\<close>,
  \<^verbatim>\<open>undefined\<close>, a boolean, a number, a string, an array or an object of any shape, each
  of the guards of both variants returns a boolean and does not throw. (The guards read
  properties, which throws on \<^verbatim>\<open>null\<close> and \<^verbatim>\<open>undefined\<close>; the test that comes first in each
  conjunction keeps the reads from such values.) A guard is a function of its argument
  alone: it has no access to a backend or to the buffer, so it performs no I/O and changes
  no state.
\<close>

theorem guards_total:
  "(\<exists>b. isAccountInfoArg v = Inr b) \<and> (\<exists>b. isSymbolPriceArg v = Inr b)
   \<and> (\<exists>b. isOrderArg v = Inr b) \<and> (\<exists>b. isModifyOrderArg v = Inr b)
   \<and> (\<exists>b. isCloseOrderArg v = Inr b) \<and> (\<exists>b. isRunOptimizationArg v = Inr b)
   \<and> (\<exists>b. isOptimizationIdArg v = Inr b) \<and> (\<exists>b. isSaveOptimizationResultsArg v = Inr b)"
  by (simp add: isAccountInfoArg_eq isSymbolPriceArg_eq isOrderArg_eq isModifyOrderArg_eq
      isCloseOrderArg_eq isRunOptimizationArg_eq isOptimizationIdArg_eq
      isSaveOptimizationResultsArg_eq)

section \<open>Dispatch: unknown tools and missing parameters\<close>

lemma field_omits: "omits args p \<Longrightarrow> field args p = JUndefined"
  by (cases args) (simp_all add: omits_def field_def)

lemma handler_McpError:
  "Mt5Server_dispatch backend nm args = (Inl (McpError c m), issued) \<Longrightarrow>
   CallToolRequest_handler backend nm args = (Inl (McpError c m), issued)"
  by (simp add: CallToolRequest_handler_def)

lemma required_cases:
  "t \<in> set Mt5Server_tools \<Longrightarrow> p \<in> set (required t) \<Longrightarrow>
     (name t = ''get_symbol_price'' \<and> p = ''symbol'')
   \<or> (name t = ''create_order'' \<and> p \<in> {''symbol'', ''type'', ''volume''})
   \<or> (name t \<in> {''modify_order'', ''close_position'', ''delete_order''} \<and> p = ''ticket'')
   \<or> (name t = ''run_optimization''
        \<and> p \<in> {''symbol'', ''ea'', ''period'', ''date_from'', ''date_to'', ''deposit'', ''params''})
   \<or> (name t \<in> {''get_optimization_status'', ''get_optimization_results'',
                  ''save_optimization_results''} \<and> p = ''optimization_id'')"
  unfolding Mt5Server_tools_def tools_def optimization_tools_def
  by (elim disjE | simp)+

text \<open>
  In \<^verbatim>\<open>mt5-server.ts\<close>, for each of the twelve registered tools and each parameter its
  schema requires, a call whose arguments omit the parameter (they are no object, or an
  object without it) is refused with the error code InvalidParams, and no HTTP request is
  issued. The handler raises the McpError, which the SDK sends as the error envelope.
\<close>

theorem missing_required_parameter:
  assumes "t \<in> set Mt5Server_tools" and "p \<in> set (required t)" and "omits args p"
  shows "\<exists>msg. CallToolRequest_handler backend (name t) args
               = (Inl (McpError InvalidParams msg), [])"
proof -
  have u: "field args p = JUndefined" using assms(3) by (rule field_omits)
  have "\<exists>msg. Mt5Server_dispatch backend (name t) args = (Inl (McpError InvalidParams msg), [])"
    using required_cases [OF assms(1,2)] u
    by (elim disjE conjE insertE emptyE)
       (simp_all add: Mt5Server_dispatch_def handler_defs guard_eqs)
  then show ?thesis by (auto intro: handler_McpError)
qed

theorem missing_required_parameter_witness:
  "Mt5Server_tools ! 4 \<in> set Mt5Server_tools
   \<and> name (Mt5Server_tools ! 4) = ''create_order''
   \<and> ''volume'' \<in> set (required (Mt5Server_tools ! 4))
   \<and> omits (JObj [(''symbol'', JStr ''EURUSD''), (''type'', JStr ''BUY'')]) ''volume''
   \<and> (\<exists>msg. CallToolRequest_handler (\<lambda>r. NoResponse []) ''create_order''
               (JObj [(''symbol'', JStr ''EURUSD''), (''type'', JStr ''BUY'')])
             = (Inl (McpError InvalidParams msg), []))"
proof -
  have a: "Mt5Server_tools ! 4 \<in> set Mt5Server_tools"
    by (simp add: Mt5Server_tools_def tools_def optimization_tools_def)
  have n: "name (Mt5Server_tools ! 4) = ''create_order''"
    by (simp add: Mt5Server_tools_def tools_def optimization_tools_def)
  have b: "''volume'' \<in> set (required (Mt5Server_tools ! 4))"
    by (simp add: Mt5Server_tools_def tools_def optimization_tools_def)
  have c: "omits (JObj [(''symbol'', JStr ''EURUSD''), (''type'', JStr ''BUY'')]) ''volume''"
    by (simp add: omits_def)
  show ?thesis
    using missing_required_parameter [OF a b c, of "\<lambda>r. NoResponse []"] a b c n by simp
qed

text \<open>
  C4 does not hold of \<^verbatim>\<open>server.js\<close>. There a call that omits a required parameter issues
  no HTTP request either, but the handler throws a plain \<^verbatim>\<open>Error\<close>, which the \<^verbatim>\<open>catch\<close> of
  \<^verbatim>\<open>call_tool\<close> reports as an internal error: a \<^verbatim>\<open>create_order\<close> call without \<^verbatim>\<open>volume\<close>
  yields the error envelope with code -32603 and the message
  \<^verbatim>\<open>Unexpected error: Invalid order arguments\<close>, not a ValidationError (InvalidParams,
  -32602).
\<close>

theorem server_js_missing_parameter:
  "handleMcpRequest backend
     (tool_call_request rid ''create_order''
        (JObj [(''symbol'', JStr ''EURUSD''), (''type'', JStr ''BUY'')]))
   = (Inr (error_envelope rid (- 32603) ''Unexpected error: Invalid order arguments''), [])"
  by (simp add: handleMcpRequest_def call_tool_def reading_def tool_call_request_def
        get_property_def enveloped_def handleCreateOrder_def isOrderArg_eq message_of_def
        is_obj_def field_def)

lemma tool_names:
  "map name Mt5Server_tools =
     [''get_account_info'', ''get_symbol_price'', ''get_open_positions'', ''get_pending_orders'',
      ''create_order'', ''modify_order'', ''close_position'', ''delete_order'',
      ''run_optimization'', ''get_optimization_status'', ''get_optimization_results'',
      ''save_optimization_results'']"
  by (simp add: Mt5Server_tools_def tools_def optimization_tools_def)

lemma is_tool_callD:
  assumes "is_tool_call request rid nm args"
  obtains params where "get_property request ''method'' = Inr (JStr ''call_tool'')"
    and "get_property request ''id'' = Inr rid"
    and "get_property request ''params'' = Inr params"
    and "get_property params ''name'' = Inr (JStr nm)"
    and "get_property params ''arguments'' = Inr args"
  using assms by (auto simp: is_tool_call_def split: sum.splits)

lemma handleMcpRequest_call_tool:
  assumes "is_tool_call request rid nm args"
  shows "handleMcpRequest backend request =
     (case call_tool backend request rid of
        (Inr envelope, issued) \<Rightarrow> (Inr envelope, issued)
      | (Inl error, issued) \<Rightarrow>
          (case error of
             AxiosError msg response \<Rightarrow>
               (case api_error_result msg response of
                  Inl e \<Rightarrow> (Inl e, issued)
                | Inr result \<Rightarrow> (Inr (result_envelope rid result), issued))
           | _ \<Rightarrow> (Inr (error_envelope rid (- 32603)
                          (''Unexpected error: '' @ message_of error)), issued)))"
  using assms by (elim is_tool_callD) (simp add: handleMcpRequest_def reading_def)

text \<open>
  C3. For every tool name that is not one of the twelve registered names, the call fails
  with MethodNotFound and the message \<^verbatim>\<open>Unknown tool: <name>\<close>, and no HTTP request is issued
  to either backend: the handler of \<^verbatim>\<open>mt5-server.ts\<close> raises McpError(MethodNotFound), which
  the SDK sends as the error envelope, and \<^verbatim>\<open>handleMcpRequest\<close> of \<^verbatim>\<open>server.js\<close> returns the
  error envelope with code -32601.
\<close>

theorem unknown_tool:
  assumes "nm \<notin> set (map name Mt5Server_tools)"
  shows "CallToolRequest_handler backend nm args
           = (Inl (McpError MethodNotFound (''Unknown tool: '' @ nm)), [])
       \<and> (is_tool_call request rid nm args' \<longrightarrow>
          handleMcpRequest backend request
            = (Inr (error_envelope rid (- 32601) (''Unknown tool: '' @ nm)), []))"
proof (intro conjI impI)
  note ne = assms [unfolded tool_names, simplified]
  show "CallToolRequest_handler backend nm args
           = (Inl (McpError MethodNotFound (''Unknown tool: '' @ nm)), [])"
    using ne by (simp add: CallToolRequest_handler_def Mt5Server_dispatch_def)
  assume c: "is_tool_call request rid nm args'"
  have "call_tool backend request rid
          = (Inr (error_envelope rid (- 32601) (''Unknown tool: '' @ nm)), [])"
    using c ne by (elim is_tool_callD) (simp add: call_tool_def reading_def)
  then show "handleMcpRequest backend request
           = (Inr (error_envelope rid (- 32601) (''Unknown tool: '' @ nm)), [])"
    by (simp add: handleMcpRequest_call_tool [OF c])
qed

lemma is_tool_call_request: "is_tool_call (tool_call_request rid nm args) rid nm args"
  by (simp add: is_tool_call_def tool_call_request_def get_property_def)

theorem unknown_tool_witness:
  "''get_balance'' \<notin> set (map name Mt5Server_tools)
   \<and> is_tool_call (tool_call_request (JNum (Integral 7)) ''get_balance'' (JObj [])) (JNum (Integral 7)) ''get_balance'' (JObj [])
   \<and> CallToolRequest_handler (\<lambda>r. NoResponse []) ''get_balance'' (JObj [])
       = (Inl (McpError MethodNotFound ''Unknown tool: get_balance''), [])
   \<and> handleMcpRequest (\<lambda>r. NoResponse []) (tool_call_request (JNum (Integral 7)) ''get_balance'' (JObj []))
       = (Inr (error_envelope (JNum (Integral 7)) (- 32601) ''Unknown tool: get_balance''), [])"
proof -
  have a: "''get_balance'' \<notin> set (map name Mt5Server_tools)"
    by (simp add: tool_names)
  show ?thesis
    using unknown_tool [OF a, of "\<lambda>r. NoResponse []" "JObj []" "tool_call_request (JNum (Integral 7)) ''get_balance'' (JObj [])" "JNum (Integral 7)" "JObj []"]
      a is_tool_call_request [of "JNum (Integral 7)" "''get_balance''" "JObj []"]
    by simp
qed

lemma settles_respond: "settles backend thrown (respond backend req)"
  unfolding settles_def by blast

lemma settles_throw: "thrown e \<Longrightarrow> settles backend thrown (Inl e, [])"
  unfolding settles_def by blast

lemma settles_if:
  "settles backend thrown x \<Longrightarrow> settles backend thrown y \<Longrightarrow>
   settles backend thrown (if c then x else y)"
  by simp

lemma settles_guarded:
  "thrown e \<Longrightarrow> (b \<Longrightarrow> settles backend thrown rest) \<Longrightarrow>
   settles backend thrown (guarded (Inr b) e rest)"
  by (cases b) (simp_all add: guarded_def settles_throw)

lemma settles_interpolating:
  "typeof v = ''string'' \<or> typeof v = ''number'' \<Longrightarrow> (\<And>s. settles backend thrown (rest s)) \<Longrightarrow>
   settles backend thrown (interpolating v rest)"
  using interpolating_typed [of v rest] by auto

lemma settles_GetAccountInfo:
  "(\<And>m. thrown (invalid m)) \<Longrightarrow> settles backend thrown (handleGetAccountInfo invalid backend args)"
  by (cases "is_obj args")
     (auto simp: handleGetAccountInfo_def guard_eqs simp del: guarded_simps
        intro!: settles_guarded settles_interpolating settles_respond settles_throw)

lemma settles_GetSymbolPrice:
  "(\<And>m. thrown (invalid m)) \<Longrightarrow> settles backend thrown (handleGetSymbolPrice invalid backend args)"
  by (cases "is_obj args")
     (auto simp: handleGetSymbolPrice_def guard_eqs simp del: guarded_simps
        intro!: settles_guarded settles_interpolating settles_respond settles_throw)

lemma settles_CreateOrder:
  "(\<And>m. thrown (invalid m)) \<Longrightarrow> settles backend thrown (handleCreateOrder invalid backend args)"
  by (simp add: handleCreateOrder_def guard_eqs settles_guarded settles_respond)

lemma settles_ModifyOrder:
  "(\<And>m. thrown (invalid m)) \<Longrightarrow> settles backend thrown (handleModifyOrder invalid backend args)"
  by (cases "is_obj args")
     (auto simp: handleModifyOrder_def guard_eqs simp del: guarded_simps
        intro!: settles_guarded settles_interpolating settles_respond settles_throw)

lemma settles_ClosePosition:
  "(\<And>m. thrown (invalid m)) \<Longrightarrow> settles backend thrown (handleClosePosition invalid backend args)"
  by (cases "is_obj args")
     (auto simp: handleClosePosition_def guard_eqs simp del: guarded_simps
        intro!: settles_guarded settles_interpolating settles_respond settles_throw)

lemma settles_DeleteOrder:
  "(\<And>m. thrown (invalid m)) \<Longrightarrow> settles backend thrown (handleDeleteOrder invalid backend args)"
  by (cases "is_obj args")
     (auto simp: handleDeleteOrder_def guard_eqs simp del: guarded_simps
        intro!: settles_guarded settles_interpolating settles_respond settles_throw)

lemma settles_RunOptimization:
  "thrown = (\<lambda>e. \<exists>c m. e = McpError c m) \<Longrightarrow>
   settles backend thrown (handleRunOptimization backend args)"
  by (simp add: handleRunOptimization_def guard_eqs settles_guarded settles_respond)

lemma settles_GetOptimizationStatus:
  "thrown = (\<lambda>e. \<exists>c m. e = McpError c m) \<Longrightarrow>
   settles backend thrown (handleGetOptimizationStatus backend args)"
  by (cases "is_obj args")
     (auto simp: handleGetOptimizationStatus_def guard_eqs simp del: guarded_simps
        intro!: settles_guarded settles_interpolating settles_respond settles_throw)

lemma settles_GetOptimizationResults:
  "thrown = (\<lambda>e. \<exists>c m. e = McpError c m) \<Longrightarrow>
   settles backend thrown (handleGetOptimizationResults backend args)"
  by (cases "is_obj args")
     (auto simp: handleGetOptimizationResults_def guard_eqs simp del: guarded_simps
        intro!: settles_guarded settles_interpolating settles_respond settles_throw)

lemma settles_SaveOptimizationResults:
  "thrown = (\<lambda>e. \<exists>c m. e = McpError c m) \<Longrightarrow>
   settles backend thrown (handleSaveOptimizationResults backend args)"
  by (simp add: handleSaveOptimizationResults_def guard_eqs settles_guarded settles_respond)

lemma settles_plain:
  "settles backend thrown (handleGetOpenPositions backend)"
  "settles backend thrown (handleGetPendingOrders backend)"
  by (simp_all add: handleGetOpenPositions_def handleGetPendingOrders_def settles_respond)

lemmas settles_handlers = settles_GetAccountInfo settles_GetSymbolPrice settles_CreateOrder
  settles_ModifyOrder settles_ClosePosition settles_DeleteOrder settles_RunOptimization
  settles_GetOptimizationStatus settles_GetOptimizationResults settles_SaveOptimizationResults
  settles_plain

lemma dispatch_settles:
  "settles backend (\<lambda>e. \<exists>c m. e = McpError c m) (Mt5Server_dispatch backend nm args)"
  unfolding Mt5Server_dispatch_def
  by (intro settles_if settles_handlers settles_throw) auto

section \<open>Failures of the backend\<close>

lemma respond_failed:
  "backend req = HttpResponse status payload \<Longrightarrow> \<not> (200 \<le> status \<and> status < 300) \<Longrightarrow>
   respond backend req =
     (Inl (AxiosError (''Request failed with status code '' @ show_nat status)
             (Some (status, payload))), [req])"
  by (simp add: respond_def axios_request_def)

lemma respond_ok:
  "backend req = HttpResponse status payload \<Longrightarrow> 200 \<le> status \<Longrightarrow> status < 300 \<Longrightarrow>
   respond backend req = (Inr (text_result payload), [req])"
  by (simp add: respond_def axios_request_def)

lemma api_error_message_response:
  "api_error_message msg (Some (status, payload)) =
     (if truthy (field payload ''message'') then field payload ''message'' else JStr msg)"
  by (cases payload) (simp_all add: api_error_message_def get_property_def field_def truthy_def)

lemma settlesE:
  assumes "settles backend thrown r"
  obtains req where "r = respond backend req" | e where "thrown e" and "r = (Inl e, [])"
  using assms unfolding settles_def by blast

lemma call_tool_settles:
  assumes "is_tool_call request rid nm args"
  shows "(\<exists>h. settles backend (\<lambda>e. \<exists>m. e = Error m) h
              \<and> call_tool backend request rid = enveloped rid h)
         \<or> call_tool backend request rid
             = (Inr (error_envelope rid (- 32601) (''Unknown tool: '' @ nm)), [])"
proof -
  let ?T = "\<lambda>e. \<exists>m. e = Error m"
  have s: "settles backend ?T (handleGetAccountInfo Error backend args)"
    "settles backend ?T (handleGetSymbolPrice Error backend args)"
    "settles backend ?T (handleCreateOrder Error backend args)"
    "settles backend ?T (handleModifyOrder Error backend args)"
    "settles backend ?T (handleClosePosition Error backend args)"
    "settles backend ?T (handleDeleteOrder Error backend args)"
    "settles backend ?T (handleGetOpenPositions backend)"
    "settles backend ?T (handleGetPendingOrders backend)"
    by (intro settles_handlers; blast)+
  from assms obtain params where p: "get_property request ''params'' = Inr params"
    "get_property params ''name'' = Inr (JStr nm)"
    "get_property params ''arguments'' = Inr args"
    by (rule is_tool_callD)
  let ?Q = "\<lambda>r. (\<exists>h. settles backend ?T h \<and> r = enveloped rid h)
                \<or> r = (Inr (error_envelope rid (- 32601) (''Unknown tool: '' @ nm)), [])"
  have q_env: "?Q (enveloped rid h)" if "settles backend ?T h" for h
    using that by blast
  have q_unknown: "?Q (Inr (error_envelope rid (- 32601) (''Unknown tool: '' @ nm)), [])"
    by blast
  have "?Q (call_tool backend request rid)"
    unfolding call_tool_def reading_def
    apply (simp only: p sum.case interpolating_simps)
    apply (intro if_cases [where P = ?Q] q_env s q_unknown)
    done
  then show ?thesis .
qed

lemma api_error_result_response:
  "api_error_result msg (Some (status, payload)) =
     (case ToString (if truthy (field payload ''message'') then field payload ''message''
                     else JStr msg) of
        Inl e \<Rightarrow> Inl e
      | Inr shown \<Rightarrow> Inr (error_result (''MetaTrader 5 API error: '' @ shown)))"
  by (simp add: api_error_result_def error_result_def api_error_message_response
      split: sum.splits)

lemma api_error_result_truthy:
  "truthy (field payload ''message'') \<Longrightarrow> ToString (field payload ''message'') = Inr shown \<Longrightarrow>
   api_error_result msg (Some (status, payload))
     = Inr (error_result (''MetaTrader 5 API error: '' @ shown))"
  by (simp add: api_error_result_response)

lemma api_error_result_falsy:
  "\<not> truthy (field payload ''message'') \<Longrightarrow>
   api_error_result msg (Some (status, payload))
     = Inr (error_result (''MetaTrader 5 API error: '' @ msg))"
  by (simp add: api_error_result_response)

lemma handler_of_respond:
  "Mt5Server_dispatch backend nm args = respond backend req \<Longrightarrow>
   CallToolRequest_handler backend nm args =
     (case axios_request backend req of
        Inl e \<Rightarrow> (case e of AxiosError msg response \<Rightarrow> (api_error_result msg response, [req])
                 | McpError c m \<Rightarrow> (Inl e, [req])
                 | _ \<Rightarrow> (Inl (McpError InternalError (''Unexpected error: '' @ message_of e)), [req]))
      | Inr payload \<Rightarrow> (Inr (text_result payload), [req]))"
  by (simp add: CallToolRequest_handler_def respond_def split: sum.splits)

lemma handler_issued:
  assumes "snd (CallToolRequest_handler backend nm args) = [req]"
  shows "Mt5Server_dispatch backend nm args = respond backend req"
proof -
  from dispatch_settles [of backend nm args] show ?thesis
  proof (rule settlesE)
    fix r assume r: "Mt5Server_dispatch backend nm args = respond backend r"
    then have "snd (CallToolRequest_handler backend nm args) = [r]"
      by (simp add: handler_of_respond split: sum.splits exn.splits)
    with assms r show ?thesis by simp
  next
    fix e assume "\<exists>c m. e = McpError c m" and "Mt5Server_dispatch backend nm args = (Inl e, [])"
    then have "snd (CallToolRequest_handler backend nm args) = []"
      by (auto simp: CallToolRequest_handler_def)
    with assms show ?thesis by simp
  qed
qed

lemma js_issued:
  assumes c: "is_tool_call request rid nm args"
    and i: "snd (handleMcpRequest backend request) = [req]"
  shows "call_tool backend request rid = enveloped rid (respond backend req)"
proof -
  note h = handleMcpRequest_call_tool [OF c, of backend]
  from call_tool_settles [OF c, of backend] show ?thesis
  proof (elim disjE exE conjE)
    fix hd assume s: "settles backend (\<lambda>e. \<exists>m. e = Error m) hd"
      and ct: "call_tool backend request rid = enveloped rid hd"
    from s show ?thesis
    proof (rule settlesE)
      fix r assume r: "hd = respond backend r"
      then have "snd (handleMcpRequest backend request) = [r]"
        by (simp add: h ct enveloped_def respond_def split: sum.splits exn.splits)
      with i r ct show ?thesis by simp
    next
      fix e assume "\<exists>m. e = Error m" and "hd = (Inl e, [])"
      then have "snd (handleMcpRequest backend request) = []"
        by (auto simp: h ct enveloped_def)
      with i show ?thesis by simp
    qed
  next
    assume "call_tool backend request rid
             = (Inr (error_envelope rid (- 32601) (''Unknown tool: '' @ nm)), [])"
    then have "snd (handleMcpRequest backend request) = []" by (simp add: h)
    with i show ?thesis by simp
  qed
qed

lemma handler_failed:
  assumes "backend req = HttpResponse status payload" and "\<not> (200 \<le> status \<and> status < 300)"
    and "snd (CallToolRequest_handler backend nm args) = [req]"
  shows "CallToolRequest_handler backend nm args
           = (api_error_result (''Request failed with status code '' @ show_nat status)
                (Some (status, payload)), [req])"
proof -
  have "Mt5Server_dispatch backend nm args = respond backend req"
    using assms(3) by (rule handler_issued)
  then show ?thesis
    by (simp add: CallToolRequest_handler_def
          respond_failed [of backend req status payload, OF assms(1,2)])
qed

lemma js_failed:
  assumes "backend req = HttpResponse status payload" and "\<not> (200 \<le> status \<and> status < 300)"
    and "is_tool_call request rid nm args" and "snd (handleMcpRequest backend request) = [req]"
  shows "handleMcpRequest backend request
           = (case api_error_result (''Request failed with status code '' @ show_nat status)
                     (Some (status, payload)) of
                Inl e \<Rightarrow> (Inl e, [req])
              | Inr result \<Rightarrow> (Inr (result_envelope rid result), [req]))"
proof -
  have "call_tool backend request rid = enveloped rid (respond backend req)"
    using assms(3,4) by (rule js_issued)
  then show ?thesis
    by (simp add: handleMcpRequest_call_tool [OF assms(3)] enveloped_def
          respond_failed [of backend req status payload, OF assms(1,2)])
qed

text \<open>
  C2, as amended. When a tool call has issued its HTTP request and the backend answers
  with a status outside 2xx, both variants return a success-tagged envelope whose single
  content block is a text block marked as an error, in these two cases. When the
  \<^verbatim>\<open>message\<close> field of the error body is truthy and converts to a string (a string that
  is not empty converts to itself), the text is \<^verbatim>\<open>MetaTrader 5 API error: \<close> followed by
  that string. When the field is absent or falsy, as the empty string is, the text is
  \<^verbatim>\<open>MetaTrader 5 API error: \<close> followed by the error text of the HTTP client,
  \<^verbatim>\<open>Request failed with status code <status>\<close>. Nothing is said here of a truthy field
  whose conversion throws.
\<close>

theorem backend_error_reported:
  assumes "backend req = HttpResponse status payload" and "\<not> (200 \<le> status \<and> status < 300)"
  shows "(snd (CallToolRequest_handler backend nm args) = [req]
            \<and> truthy (field payload ''message'')
            \<and> ToString (field payload ''message'') = Inr shown \<longrightarrow>
          fst (CallToolRequest_handler backend nm args)
            = Inr (error_result (''MetaTrader 5 API error: '' @ shown)))
       \<and> (snd (CallToolRequest_handler backend nm args) = [req]
            \<and> \<not> truthy (field payload ''message'') \<longrightarrow>
          fst (CallToolRequest_handler backend nm args)
            = Inr (error_result (''MetaTrader 5 API error: ''
                     @ ''Request failed with status code '' @ show_nat status)))
       \<and> (is_tool_call request rid nm args \<and> snd (handleMcpRequest backend request) = [req]
            \<and> truthy (field payload ''message'')
            \<and> ToString (field payload ''message'') = Inr shown \<longrightarrow>
          fst (handleMcpRequest backend request)
            = Inr (result_envelope rid (error_result (''MetaTrader 5 API error: '' @ shown))))
       \<and> (is_tool_call request rid nm args \<and> snd (handleMcpRequest backend request) = [req]
            \<and> \<not> truthy (field payload ''message'') \<longrightarrow>
          fst (handleMcpRequest backend request)
            = Inr (result_envelope rid (error_result (''MetaTrader 5 API error: ''
                     @ ''Request failed with status code '' @ show_nat status))))"
proof (intro conjI impI)
  assume a: "snd (CallToolRequest_handler backend nm args) = [req]
            \<and> truthy (field payload ''message'')
            \<and> ToString (field payload ''message'') = Inr shown"
  then show "fst (CallToolRequest_handler backend nm args)
            = Inr (error_result (''MetaTrader 5 API error: '' @ shown))"
    using handler_failed [of backend req status payload nm args, OF assms]
    by (simp add: api_error_result_truthy)
next
  assume a: "snd (CallToolRequest_handler backend nm args) = [req]
            \<and> \<not> truthy (field payload ''message'')"
  then show "fst (CallToolRequest_handler backend nm args)
            = Inr (error_result (''MetaTrader 5 API error: ''
                     @ ''Request failed with status code '' @ show_nat status))"
    using handler_failed [of backend req status payload nm args, OF assms]
    by (simp add: api_error_result_falsy)
next
  assume a: "is_tool_call request rid nm args \<and> snd (handleMcpRequest backend request) = [req]
            \<and> truthy (field payload ''message'')
            \<and> ToString (field payload ''message'') = Inr shown"
  then show "fst (handleMcpRequest backend request)
            = Inr (result_envelope rid (error_result (''MetaTrader 5 API error: '' @ shown)))"
    using js_failed [of backend req status payload request rid nm args, OF assms]
    by (simp add: api_error_result_truthy)
next
  assume a: "is_tool_call request rid nm args \<and> snd (handleMcpRequest backend request) = [req]
            \<and> \<not> truthy (field payload ''message'')"
  then show "fst (handleMcpRequest backend request)
            = Inr (result_envelope rid (error_result (''MetaTrader 5 API error: ''
                     @ ''Request failed with status code '' @ show_nat status)))"
    using js_failed [of backend req status payload request rid nm args, OF assms]
    by (simp add: api_error_result_falsy)
qed

lemma plain_handlers:
  "CallToolRequest_handler backend ''get_open_positions'' args =
     (case respond backend \<lparr>client = apiClient, verb = GET, url = ''/positions'', body = None\<rparr> of
        (Inr result, issued) \<Rightarrow> (Inr result, issued)
      | (Inl error, issued) \<Rightarrow>
          (case error of
             AxiosError msg response \<Rightarrow> (api_error_result msg response, issued)
           | McpError code msg \<Rightarrow> (Inl error, issued)
           | _ \<Rightarrow> (Inl (McpError InternalError (''Unexpected error: '' @ message_of error)),
                   issued)))"
  by (simp add: CallToolRequest_handler_def Mt5Server_dispatch_def handleGetOpenPositions_def)

lemma plain_call:
  "handleMcpRequest backend (tool_call_request rid ''get_open_positions'' args) =
     (case respond backend \<lparr>client = apiClient, verb = GET, url = ''/positions'', body = None\<rparr> of
        (Inr result, issued) \<Rightarrow> (Inr (result_envelope rid result), issued)
      | (Inl error, issued) \<Rightarrow>
          (case error of
             AxiosError msg response \<Rightarrow>
               (case api_error_result msg response of
                  Inl e \<Rightarrow> (Inl e, issued)
                | Inr result \<Rightarrow> (Inr (result_envelope rid result), issued))
           | _ \<Rightarrow> (Inr (error_envelope rid (- 32603)
                          (''Unexpected error: '' @ message_of error)), issued)))"
  by (simp add: handleMcpRequest_def call_tool_def reading_def tool_call_request_def
        get_property_def enveloped_def handleGetOpenPositions_def
      split: prod.splits sum.splits)

lemma respond_500:
  "respond (\<lambda>r. HttpResponse 500 payload) req
     = (Inl (AxiosError ''Request failed with status code 500'' (Some (500, payload))), [req])"
  by (simp add: respond_def axios_request_def show_nat.simps)

theorem backend_error_reported_witness:
  "fst (CallToolRequest_handler
          (\<lambda>r. HttpResponse 500 (JObj [(''message'', JStr ''MT5 not initialized'')]))
          ''get_open_positions'' JUndefined)
     = Inr (error_result ''MetaTrader 5 API error: MT5 not initialized'')
   \<and> fst (handleMcpRequest
          (\<lambda>r. HttpResponse 500 (JObj [(''message'', JStr ''MT5 not initialized'')]))
          (tool_call_request (JNum (Integral 1)) ''get_open_positions'' JUndefined))
     = Inr (result_envelope (JNum (Integral 1))
              (error_result ''MetaTrader 5 API error: MT5 not initialized''))
   \<and> fst (CallToolRequest_handler (\<lambda>r. HttpResponse 404 (JObj []))
          ''get_open_positions'' JUndefined)
     = Inr (error_result ''MetaTrader 5 API error: Request failed with status code 404'')
   \<and> fst (handleMcpRequest (\<lambda>r. HttpResponse 404 (JObj []))
          (tool_call_request (JNum (Integral 1)) ''get_open_positions'' JUndefined))
     = Inr (result_envelope (JNum (Integral 1))
              (error_result ''MetaTrader 5 API error: Request failed with status code 404''))"
proof -
  let ?p = "JObj [(''message'', JStr ''MT5 not initialized'')]"
  let ?b = "\<lambda>r::http_request. HttpResponse 500 ?p"
  let ?c = "\<lambda>r::http_request. HttpResponse 404 (JObj [])"
  let ?req = "\<lparr>client = apiClient, verb = GET, url = ''/positions'', body = None\<rparr>"
  let ?rq = "tool_call_request (JNum (Integral 1)) ''get_open_positions'' JUndefined"
  have b1: "?b ?req = HttpResponse 500 ?p" and c1: "?c ?req = HttpResponse 404 (JObj [])"
    by simp_all
  have b2: "\<not> (200 \<le> (500::nat) \<and> (500::nat) < 300)"
    and c2: "\<not> (200 \<le> (404::nat) \<and> (404::nat) < 300)"
    by simp_all
  have b3: "snd (CallToolRequest_handler ?b ''get_open_positions'' JUndefined) = [?req]"
    by (simp add: plain_handlers respond_failed [of ?b ?req 500, OF b1 b2])
  have c3: "snd (CallToolRequest_handler ?c ''get_open_positions'' JUndefined) = [?req]"
    by (simp add: plain_handlers respond_failed [of ?c ?req 404, OF c1 c2])
  have 4: "is_tool_call ?rq (JNum (Integral 1)) ''get_open_positions'' JUndefined"
    by (rule is_tool_call_request)
  have b5: "snd (handleMcpRequest ?b ?rq) = [?req]"
    by (simp add: plain_call respond_failed [of ?b ?req 500, OF b1 b2] split: sum.splits)
  have c5: "snd (handleMcpRequest ?c ?rq) = [?req]"
    by (simp add: plain_call respond_failed [of ?c ?req 404, OF c1 c2] split: sum.splits)
  have b6: "truthy (field ?p ''message'')"
    and b7: "ToString (field ?p ''message'') = Inr ''MT5 not initialized''"
    and c6: "\<not> truthy (field (JObj []) ''message'')"
    by simp_all
  have n: "show_nat 404 = ''404''"
    by (simp add: show_nat.simps)
  note tb = backend_error_reported [of ?b ?req 500 ?p "''get_open_positions''" JUndefined
        "''MT5 not initialized''" ?rq "JNum (Integral 1)", OF b1 b2]
  note tc = backend_error_reported [of ?c ?req 404 "JObj []" "''get_open_positions''" JUndefined
        _ ?rq "JNum (Integral 1)", OF c1 c2]
  from tb b3 4 b5 b6 b7
  have "fst (CallToolRequest_handler ?b ''get_open_positions'' JUndefined)
          = Inr (error_result (''MetaTrader 5 API error: '' @ ''MT5 not initialized''))"
    and "fst (handleMcpRequest ?b ?rq)
          = Inr (result_envelope (JNum (Integral 1))
                   (error_result (''MetaTrader 5 API error: '' @ ''MT5 not initialized'')))"
    by blast+
  moreover from tc c3 4 c5 c6
  have "fst (CallToolRequest_handler ?c ''get_open_positions'' JUndefined)
          = Inr (error_result (''MetaTrader 5 API error: ''
                   @ ''Request failed with status code '' @ show_nat 404))"
    and "fst (handleMcpRequest ?c ?rq)
          = Inr (result_envelope (JNum (Integral 1))
                   (error_result (''MetaTrader 5 API error: ''
                      @ ''Request failed with status code '' @ show_nat 404)))"
    by blast+
  ultimately show ?thesis by (simp add: n)
qed

text \<open>
  The claim as stated fails for a message field that is falsy: for the error body
  \<^verbatim>\<open>{"message": ""}\<close> the text is not the prefix followed by the empty message, but the
  prefix followed by the error text of the HTTP client.
\<close>

theorem empty_message_counterexample:
  "fst (CallToolRequest_handler (\<lambda>r. HttpResponse 500 (JObj [(''message'', JStr [])]))
          ''get_open_positions'' JUndefined)
     = Inr (error_result ''MetaTrader 5 API error: Request failed with status code 500'')
   \<and> fst (CallToolRequest_handler (\<lambda>r. HttpResponse 500 (JObj [(''message'', JStr [])]))
          ''get_open_positions'' JUndefined)
     \<noteq> Inr (error_result (''MetaTrader 5 API error: '' @ []))"
  by (simp add: plain_handlers respond_500 api_error_result_response error_result_def)

section \<open>A successful call\<close>

lemma gap_two: "replicate 2 (CHR '' '') = ''  ''"
  by code_simp

lemma stringify_ticket:
  \<open>JSON_stringify (JObj [(''ticket'', JNum (Integral 123))]) 2 = Some ''{\<newline>  "ticket": 123\<newline>}''\<close>
  by (simp add: JSON_stringify_def wrap_def QuoteJSONString_def quote_char_def
        Number_toString_def show_int_def show_nat.simps gap_two)

text \<open>
  C5, as amended. A \<^verbatim>\<open>create_order\<close> call with the arguments
  \<^verbatim>\<open>{symbol: "EURUSD", type: "BUY", volume: 0.1}\<close> issues exactly one request, POST /order
  with those arguments as its body, to the Account backend; when the answer is 200 with the
  body \<^verbatim>\<open>{ticket: 123}\<close> it returns a success envelope whose single content block is a
  text block holding that body serialized with an indentation of two spaces: an opening
  brace, a line with two spaces and \<^verbatim>\<open>"ticket": 123\<close>, and a closing brace on a line of
  its own.
\<close>

theorem create_order_roundtrip:
  assumes "backend \<lparr>client = apiClient, verb = POST, url = ''/order'', body = Some example_order\<rparr>
             = HttpResponse 200 (JObj [(''ticket'', JNum (Integral 123))])"
  shows \<open>CallToolRequest_handler backend ''create_order'' example_order
           = (Inr (JObj [(''content'',
                          JArr [JObj [(''type'', JStr ''text''),
                                      (''text'', JStr ''{\<newline>  "ticket": 123\<newline>}'')]])]),
              [\<lparr>client = apiClient, verb = POST, url = ''/order'', body = Some example_order\<rparr>])
       \<and> (is_tool_call request rid ''create_order'' example_order \<longrightarrow>
          handleMcpRequest backend request
           = (Inr (result_envelope rid
                     (JObj [(''content'',
                             JArr [JObj [(''type'', JStr ''text''),
                                         (''text'', JStr ''{\<newline>  "ticket": 123\<newline>}'')]])])),
              [\<lparr>client = apiClient, verb = POST, url = ''/order'', body = Some example_order\<rparr>]))\<close>
proof (intro conjI impI)
  let ?req = "\<lparr>client = apiClient, verb = POST, url = ''/order'', body = Some example_order\<rparr>"
  have g: "isOrderArg example_order = Inr True"
    by (simp add: isOrderArg_eq example_order_def)
  have r: "respond backend ?req = (Inr (text_result (JObj [(''ticket'', JNum (Integral 123))])), [?req])"
    using respond_ok [of backend ?req 200, OF assms] by simp
  have h: "handleCreateOrder invalid backend example_order
            = (Inr (text_result (JObj [(''ticket'', JNum (Integral 123))])), [?req])" for invalid
    by (simp add: handleCreateOrder_def g r)
  show \<open>CallToolRequest_handler backend ''create_order'' example_order
           = (Inr (JObj [(''content'',
                          JArr [JObj [(''type'', JStr ''text''),
                                      (''text'', JStr ''{\<newline>  "ticket": 123\<newline>}'')]])]), [?req])\<close>
    by (simp add: CallToolRequest_handler_def Mt5Server_dispatch_def h text_result_def
          stringify_ticket)
  assume c: "is_tool_call request rid ''create_order'' example_order"
  have "call_tool backend request rid
          = enveloped rid (handleCreateOrder Error backend example_order)"
    using c by (elim is_tool_callD) (simp add: call_tool_def reading_def)
  then show \<open>handleMcpRequest backend request
           = (Inr (result_envelope rid
                     (JObj [(''content'',
                             JArr [JObj [(''type'', JStr ''text''),
                                         (''text'', JStr ''{\<newline>  "ticket": 123\<newline>}'')]])])), [?req])\<close>
    by (simp add: handleMcpRequest_call_tool [OF c] h enveloped_def text_result_def
          stringify_ticket)
qed

theorem create_order_roundtrip_witness:
  \<open>CallToolRequest_handler (\<lambda>r. HttpResponse 200 (JObj [(''ticket'', JNum (Integral 123))]))
       ''create_order'' example_order
     = (Inr (JObj [(''content'',
                    JArr [JObj [(''type'', JStr ''text''),
                                (''text'', JStr ''{\<newline>  "ticket": 123\<newline>}'')]])]),
        [\<lparr>client = apiClient, verb = POST, url = ''/order'', body = Some example_order\<rparr>])
   \<and> handleMcpRequest (\<lambda>r. HttpResponse 200 (JObj [(''ticket'', JNum (Integral 123))]))
       (tool_call_request (JNum (Integral 1)) ''create_order'' example_order)
     = (Inr (result_envelope (JNum (Integral 1))
               (JObj [(''content'',
                       JArr [JObj [(''type'', JStr ''text''),
                                   (''text'', JStr ''{\<newline>  "ticket": 123\<newline>}'')]])])),
        [\<lparr>client = apiClient, verb = POST, url = ''/order'', body = Some example_order\<rparr>])\<close>
  using create_order_roundtrip
      [of "\<lambda>r. HttpResponse 200 (JObj [(''ticket'', JNum (Integral 123))])"
          "tool_call_request (JNum (Integral 1)) ''create_order'' example_order" "JNum (Integral 1)"]
    is_tool_call_request [of "JNum (Integral 1)" "''create_order''" example_order]
  by simp

text \<open>
  The claim as stated fails: the text of the content block is not the compact text
  \<^verbatim>\<open>{"ticket":123}\<close>, since the handler calls \<^verbatim>\<open>JSON.stringify(response.data, null, 2)\<close>.
\<close>

theorem compact_text_counterexample:
  \<open>fst (CallToolRequest_handler (\<lambda>r. HttpResponse 200 (JObj [(''ticket'', JNum (Integral 123))]))
          ''create_order'' example_order)
     \<noteq> Inr (JObj [(''content'',
                    JArr [JObj [(''type'', JStr ''text''),
                                (''text'', JStr ''{"ticket":123}'')]])])\<close>
  by (simp add: CallToolRequest_handler_def Mt5Server_dispatch_def handleCreateOrder_def
        isOrderArg_eq example_order_def respond_def axios_request_def text_result_def
        stringify_ticket)

section \<open>Arguments the guards let through\<close>

lemma account_request:
  assumes "isAccountInfoArg args = Inr True" and "\<not> truthy (field args ''account'')"
  shows "handleGetAccountInfo invalid backend args
           = respond backend \<lparr>client = apiClient, verb = GET, url = ''/account'', body = None\<rparr>"
  using assms by (simp add: handleGetAccountInfo_def isAccountInfoArg_eq)

lemma account_refused:
  assumes "isAccountInfoArg args = Inr False"
  shows "handleGetAccountInfo invalid backend args
           = (Inl (invalid ''Invalid account info arguments''), [])"
  using assms by (simp add: handleGetAccountInfo_def)

lemma falsy_account_accepted:
  assumes "is_obj args" and "\<not> truthy (field args ''account'')"
  shows "(isAccountInfoArg args = Inr True)
           = (field args ''account'' = JUndefined \<or> field args ''account'' = JNum (Integral 0)
              \<or> field args ''account'' = JNum NegZero \<or> field args ''account'' = JNum NaN)"
  using assms
  by (cases "field args ''account''")
     (auto simp: isAccountInfoArg_eq truthy_def split: jsnum.splits)

text \<open>
  C9, as amended. A \<^verbatim>\<open>get_account_info\<close> call whose \<^verbatim>\<open>account\<close> is falsy and passes the
  guard issues GET /account, the endpoint of the default account, and its whole outcome is
  that of a call without the parameter; so \<^verbatim>\<open>{account: 0}\<close> issues GET /account and not
  GET /account/0. The falsy values that pass the guard are the absent parameter
  (\<^verbatim>\<open>undefined\<close>) and the numbers 0, -0 and NaN. A call whose \<^verbatim>\<open>account\<close> is any other
  falsy value (\<^verbatim>\<open>null\<close>, the empty string, \<^verbatim>\<open>false\<close>) is refused by the guard: no HTTP
  request is issued, \<^verbatim>\<open>mt5-server.ts\<close> raises McpError(InvalidParams) and \<^verbatim>\<open>server.js\<close>
  returns the error envelope with code -32603. This holds in both variants.
\<close>

theorem falsy_account_uses_default:
  assumes "\<not> truthy (field args ''account'')"
  shows "(isAccountInfoArg args = Inr True \<longrightarrow>
            snd (CallToolRequest_handler backend ''get_account_info'' args)
              = [\<lparr>client = apiClient, verb = GET, url = ''/account'', body = None\<rparr>]
            \<and> CallToolRequest_handler backend ''get_account_info'' args
              = CallToolRequest_handler backend ''get_account_info'' (JObj [])
            \<and> (is_tool_call request rid ''get_account_info'' args \<longrightarrow>
                 snd (handleMcpRequest backend request)
                   = [\<lparr>client = apiClient, verb = GET, url = ''/account'', body = None\<rparr>]
                 \<and> handleMcpRequest backend request
                   = handleMcpRequest backend
                       (tool_call_request rid ''get_account_info'' (JObj []))))
       \<and> (isAccountInfoArg args = Inr False \<longrightarrow>
            CallToolRequest_handler backend ''get_account_info'' args
              = (Inl (McpError InvalidParams ''Invalid account info arguments''), [])
            \<and> (is_tool_call request rid ''get_account_info'' args \<longrightarrow>
                 handleMcpRequest backend request
                   = (Inr (error_envelope rid (- 32603)
                             ''Unexpected error: Invalid account info arguments''), [])))
       \<and> (is_obj args \<longrightarrow>
            (isAccountInfoArg args = Inr True)
              = (field args ''account'' = JUndefined \<or> field args ''account'' = JNum (Integral 0)
                 \<or> field args ''account'' = JNum NegZero \<or> field args ''account'' = JNum NaN))"
proof (intro conjI impI)
  let ?req = "\<lparr>client = apiClient, verb = GET, url = ''/account'', body = None\<rparr>"
  have e: "handleGetAccountInfo invalid backend (JObj []) = respond backend ?req" for invalid
    by (simp add: handleGetAccountInfo_def isAccountInfoArg_eq)
  have d': "Mt5Server_dispatch backend ''get_account_info'' (JObj []) = respond backend ?req"
    by (simp add: Mt5Server_dispatch_def e)
  {
    assume g: "isAccountInfoArg args = Inr True"
    note a = account_request [OF g assms]
    have d: "Mt5Server_dispatch backend ''get_account_info'' args = respond backend ?req"
      by (simp add: Mt5Server_dispatch_def a)
    show "snd (CallToolRequest_handler backend ''get_account_info'' args) = [?req]"
      by (simp add: handler_of_respond [OF d] split: sum.splits exn.splits)
    show "CallToolRequest_handler backend ''get_account_info'' args
           = CallToolRequest_handler backend ''get_account_info'' (JObj [])"
      by (simp add: handler_of_respond [OF d] handler_of_respond [OF d'])
    assume c: "is_tool_call request rid ''get_account_info'' args"
    have ct: "call_tool backend request rid = enveloped rid (respond backend ?req)"
      using c by (elim is_tool_callD) (simp add: call_tool_def reading_def a)
    have ct': "call_tool backend (tool_call_request rid ''get_account_info'' (JObj [])) rid
               = enveloped rid (respond backend ?req)"
      by (simp add: call_tool_def reading_def tool_call_request_def get_property_def e)
    show "snd (handleMcpRequest backend request) = [?req]"
      by (simp add: handleMcpRequest_call_tool [OF c] ct enveloped_def respond_def
            split: sum.splits exn.splits)
    show "handleMcpRequest backend request
          = handleMcpRequest backend (tool_call_request rid ''get_account_info'' (JObj []))"
      by (simp add: handleMcpRequest_call_tool [OF c]
            handleMcpRequest_call_tool [OF is_tool_call_request] ct ct')
  }
  {
    assume g: "isAccountInfoArg args = Inr False"
    note r = account_refused [OF g]
    show "CallToolRequest_handler backend ''get_account_info'' args
              = (Inl (McpError InvalidParams ''Invalid account info arguments''), [])"
      by (simp add: CallToolRequest_handler_def Mt5Server_dispatch_def r)
    assume c: "is_tool_call request rid ''get_account_info'' args"
    have ct: "call_tool backend request rid
                = (Inl (Error ''Invalid account info arguments''), [])"
      using c by (elim is_tool_callD) (simp add: call_tool_def reading_def r enveloped_def)
    show "handleMcpRequest backend request
            = (Inr (error_envelope rid (- 32603)
                      ''Unexpected error: Invalid account info arguments''), [])"
      by (simp add: handleMcpRequest_call_tool [OF c] ct message_of_def)
  }
  assume "is_obj args"
  then show "(isAccountInfoArg args = Inr True)
              = (field args ''account'' = JUndefined \<or> field args ''account'' = JNum (Integral 0)
                 \<or> field args ''account'' = JNum NegZero \<or> field args ''account'' = JNum NaN)"
    using assms by (rule falsy_account_accepted)
qed

theorem falsy_account_uses_default_witness:
  "\<not> truthy (field (JObj [(''account'', JNum (Integral 0))]) ''account'')
   \<and> is_obj (JObj [(''account'', JNum (Integral 0))])
   \<and> isAccountInfoArg (JObj [(''account'', JNum (Integral 0))]) = Inr True
   \<and> snd (CallToolRequest_handler (\<lambda>r. HttpResponse 200 (JObj []))
            ''get_account_info'' (JObj [(''account'', JNum (Integral 0))]))
       = [\<lparr>client = apiClient, verb = GET, url = ''/account'', body = None\<rparr>]
   \<and> snd (handleMcpRequest (\<lambda>r. HttpResponse 200 (JObj []))
            (tool_call_request (JNum (Integral 1)) ''get_account_info''
               (JObj [(''account'', JNum (Integral 0))])))
       = [\<lparr>client = apiClient, verb = GET, url = ''/account'', body = None\<rparr>]
   \<and> \<not> truthy (field (JObj [(''account'', JBool False)]) ''account'')
   \<and> isAccountInfoArg (JObj [(''account'', JBool False)]) = Inr False
   \<and> CallToolRequest_handler (\<lambda>r. HttpResponse 200 (JObj []))
        ''get_account_info'' (JObj [(''account'', JBool False)])
       = (Inl (McpError InvalidParams ''Invalid account info arguments''), [])
   \<and> handleMcpRequest (\<lambda>r. HttpResponse 200 (JObj []))
        (tool_call_request (JNum (Integral 1)) ''get_account_info''
           (JObj [(''account'', JBool False)]))
       = (Inr (error_envelope (JNum (Integral 1)) (- 32603)
                 ''Unexpected error: Invalid account info arguments''), [])"
proof -
  let ?zero = "JObj [(''account'', JNum (Integral 0))]"
  let ?no = "JObj [(''account'', JBool False)]"
  let ?b = "\<lambda>r::http_request. HttpResponse 200 (JObj [])"
  have 1: "isAccountInfoArg ?zero = Inr True" and 3: "isAccountInfoArg ?no = Inr False"
    by (simp_all add: isAccountInfoArg_eq)
  have 2: "\<not> truthy (field ?zero ''account'')" and 4: "\<not> truthy (field ?no ''account'')"
    by simp_all
  note t = falsy_account_uses_default [OF 2, of ?b
        "tool_call_request (JNum (Integral 1)) ''get_account_info'' ?zero" "JNum (Integral 1)"]
  note u = falsy_account_uses_default [OF 4, of ?b
        "tool_call_request (JNum (Integral 1)) ''get_account_info'' ?no" "JNum (Integral 1)"]
  note c = is_tool_call_request [of "JNum (Integral 1)" "''get_account_info''" ?zero]
  note d = is_tool_call_request [of "JNum (Integral 1)" "''get_account_info''" ?no]
  from t c 1 have
    "snd (CallToolRequest_handler ?b ''get_account_info'' ?zero)
       = [\<lparr>client = apiClient, verb = GET, url = ''/account'', body = None\<rparr>]"
    "snd (handleMcpRequest ?b (tool_call_request (JNum (Integral 1)) ''get_account_info'' ?zero))
       = [\<lparr>client = apiClient, verb = GET, url = ''/account'', body = None\<rparr>]"
    by blast+
  moreover from u d 3 have
    "CallToolRequest_handler ?b ''get_account_info'' ?no
       = (Inl (McpError InvalidParams ''Invalid account info arguments''), [])"
    "handleMcpRequest ?b (tool_call_request (JNum (Integral 1)) ''get_account_info'' ?no)
       = (Inr (error_envelope (JNum (Integral 1)) (- 32603)
                 ''Unexpected error: Invalid account info arguments''), [])"
    by blast+
  ultimately show ?thesis using 1 2 3 4 by simp
qed

text \<open>
  The claim as stated fails for a falsy value that is no number: a call with
  \<^verbatim>\<open>{account: null}\<close> is not treated as a call without the parameter. The call without it
  issues GET /account; the call with \<^verbatim>\<open>null\<close> is refused and issues no request, in both
  variants.
\<close>

theorem null_account_counterexample:
  "\<not> truthy (field (JObj [(''account'', JNull)]) ''account'')
   \<and> CallToolRequest_handler (\<lambda>r. HttpResponse 200 (JObj []))
        ''get_account_info'' (JObj [(''account'', JNull)])
       = (Inl (McpError InvalidParams ''Invalid account info arguments''), [])
   \<and> snd (CallToolRequest_handler (\<lambda>r. HttpResponse 200 (JObj []))
            ''get_account_info'' (JObj []))
       = [\<lparr>client = apiClient, verb = GET, url = ''/account'', body = None\<rparr>]
   \<and> handleMcpRequest (\<lambda>r. HttpResponse 200 (JObj []))
        (tool_call_request (JNum (Integral 1)) ''get_account_info'' (JObj [(''account'', JNull)]))
       = (Inr (error_envelope (JNum (Integral 1)) (- 32603)
                 ''Unexpected error: Invalid account info arguments''), [])
   \<and> snd (handleMcpRequest (\<lambda>r. HttpResponse 200 (JObj []))
            (tool_call_request (JNum (Integral 1)) ''get_account_info'' (JObj [])))
       = [\<lparr>client = apiClient, verb = GET, url = ''/account'', body = None\<rparr>]"
  by (simp add: CallToolRequest_handler_def Mt5Server_dispatch_def handleMcpRequest_def
        call_tool_def reading_def tool_call_request_def get_property_def enveloped_def
        handleGetAccountInfo_def isAccountInfoArg_eq message_of_def respond_def
        axios_request_def)

text \<open>
  C1 does not hold of the code. A \<^verbatim>\<open>modify_order\<close> call whose \<^verbatim>\<open>sl\<close> is the string
  \<^verbatim>\<open>"abc"\<close> passes \<^verbatim>\<open>isModifyOrderArg\<close>, which tests the ticket only, and PUT /order/1 is
  issued with that \<^verbatim>\<open>sl\<close> in its body, in both variants; a \<^verbatim>\<open>run_optimization\<close> call
  whose \<^verbatim>\<open>optimization_mode\<close> is \<^verbatim>\<open>"random"\<close> passes \<^verbatim>\<open>isRunOptimizationArg\<close>, which
  does not test the mode, and POST /optimize is issued.
\<close>

theorem optional_parameters_not_validated:
  "snd (CallToolRequest_handler backend ''modify_order''
          (JObj [(''ticket'', JNum (Integral 1)), (''sl'', JStr ''abc'')]))
     = [\<lparr>client = apiClient, verb = PUT, url = ''/order/1'',
         body = Some (JObj [(''sl'', JStr ''abc''), (''tp'', JUndefined)])\<rparr>]
   \<and> snd (CallToolRequest_handler backend ''run_optimization'' (example_optimization ''random''))
     = [\<lparr>client = flaskClient, verb = POST, url = ''/optimize'',
         body = Some (example_optimization ''random'')\<rparr>]
   \<and> snd (handleMcpRequest backend
            (tool_call_request rid ''modify_order''
               (JObj [(''ticket'', JNum (Integral 1)), (''sl'', JStr ''abc'')])))
     = [\<lparr>client = apiClient, verb = PUT, url = ''/order/1'',
         body = Some (JObj [(''sl'', JStr ''abc''), (''tp'', JUndefined)])\<rparr>]"
proof (intro conjI)
  let ?args = "JObj [(''ticket'', JNum (Integral 1)), (''sl'', JStr ''abc'')]"
  let ?req = "\<lparr>client = apiClient, verb = PUT, url = ''/order/1'',
         body = Some (JObj [(''sl'', JStr ''abc''), (''tp'', JUndefined)])\<rparr>"
  have m: "handleModifyOrder invalid backend ?args = respond backend ?req" for invalid
    by (simp add: handleModifyOrder_def isModifyOrderArg_eq Number_toString_def show_int_def
          show_nat.simps)
  have d: "Mt5Server_dispatch backend ''modify_order'' ?args = respond backend ?req"
    by (simp add: Mt5Server_dispatch_def m)
  show "snd (CallToolRequest_handler backend ''modify_order'' ?args) = [?req]"
    by (simp add: handler_of_respond [OF d] split: sum.splits exn.splits)
  have o: "Mt5Server_dispatch backend ''run_optimization'' (example_optimization ''random'')
        = respond backend \<lparr>client = flaskClient, verb = POST, url = ''/optimize'',
         body = Some (example_optimization ''random'')\<rparr>"
    by (simp add: Mt5Server_dispatch_def handleRunOptimization_def isRunOptimizationArg_eq)
       (simp add: example_optimization_def)
  show "snd (CallToolRequest_handler backend ''run_optimization'' (example_optimization ''random''))
     = [\<lparr>client = flaskClient, verb = POST, url = ''/optimize'',
         body = Some (example_optimization ''random'')\<rparr>]"
    by (simp add: handler_of_respond [OF o] split: sum.splits exn.splits)
  have ct: "call_tool backend (tool_call_request rid ''modify_order'' ?args) rid
               = enveloped rid (respond backend ?req)"
    by (simp add: call_tool_def reading_def tool_call_request_def get_property_def m)
  show "snd (handleMcpRequest backend (tool_call_request rid ''modify_order'' ?args)) = [?req]"
    by (simp add: handleMcpRequest_call_tool [OF is_tool_call_request] ct enveloped_def
          respond_def split: sum.splits exn.splits)
qed

section \<open>What a handler returns and what it raises\<close>

lemma axios_request_cases:
  "(\<exists>payload. axios_request backend req = Inr payload)
   \<or> (\<exists>msg response. axios_request backend req = Inl (AxiosError msg response))"
  by (simp add: axios_request_def split: http_outcome.splits)

text \<open>
  What a tool call comes to, in each variant. The handler of \<^verbatim>\<open>mt5-server.ts\<close> returns a
  result, or raises a McpError with no request issued (the SDK makes the error envelope of
  it), or, after a request that the backend has answered with an error, raises what the
  conversion of the message of the error body throws. \<^verbatim>\<open>handleMcpRequest\<close> of \<^verbatim>\<open>server.js\<close>
  returns a success-tagged or an error-tagged envelope, or raises in that same case.
\<close>

lemma handler_outcomes:
  "(\<exists>result. fst (CallToolRequest_handler backend nm args) = Inr result)
   \<or> (\<exists>code msg. CallToolRequest_handler backend nm args = (Inl (McpError code msg), []))
   \<or> (\<exists>req msg response e.
         axios_request backend req = Inl (AxiosError msg response)
         \<and> api_error_result msg response = Inl e
         \<and> CallToolRequest_handler backend nm args = (Inl e, [req]))"
proof -
  from dispatch_settles [of backend nm args] show ?thesis
  proof (rule settlesE)
    fix req assume r: "Mt5Server_dispatch backend nm args = respond backend req"
    from axios_request_cases [of backend req] show ?thesis
    proof (elim disjE exE)
      fix payload assume "axios_request backend req = Inr payload"
      then have "fst (CallToolRequest_handler backend nm args) = Inr (text_result payload)"
        by (simp add: handler_of_respond [OF r])
      then show ?thesis by blast
    next
      fix msg response assume a: "axios_request backend req = Inl (AxiosError msg response)"
      then have h: "CallToolRequest_handler backend nm args
                      = (api_error_result msg response, [req])"
        by (simp add: handler_of_respond [OF r])
      show ?thesis
      proof (cases "api_error_result msg response")
        case (Inl e)
        with a h show ?thesis by auto
      next
        case (Inr result)
        with h have "fst (CallToolRequest_handler backend nm args) = Inr result" by simp
        then show ?thesis by blast
      qed
    qed
  next
    fix e assume "\<exists>c m. e = McpError c m" and "Mt5Server_dispatch backend nm args = (Inl e, [])"
    then show ?thesis by (auto dest: handler_McpError)
  qed
qed

lemma tool_call_outcomes:
  assumes c: "is_tool_call request rid nm args"
  shows "(\<exists>result issued.
            handleMcpRequest backend request = (Inr (result_envelope rid result), issued))
       \<or> (\<exists>code msg. handleMcpRequest backend request = (Inr (error_envelope rid code msg), []))
       \<or> (\<exists>req msg response e.
             axios_request backend req = Inl (AxiosError msg response)
             \<and> api_error_result msg response = Inl e
             \<and> handleMcpRequest backend request = (Inl e, [req]))"
proof -
  note h = handleMcpRequest_call_tool [OF c, of backend]
  from call_tool_settles [OF c, of backend] show ?thesis
  proof (elim disjE exE conjE)
    fix hd assume s: "settles backend (\<lambda>e. \<exists>m. e = Error m) hd"
      and ct: "call_tool backend request rid = enveloped rid hd"
    from s show ?thesis
    proof (rule settlesE)
      fix req assume r: "hd = respond backend req"
      from axios_request_cases [of backend req] show ?thesis
      proof (elim disjE exE)
        fix payload assume "axios_request backend req = Inr payload"
        then have "handleMcpRequest backend request
                     = (Inr (result_envelope rid (text_result payload)), [req])"
          by (simp add: h ct r enveloped_def respond_def)
        then show ?thesis by blast
      next
        fix msg response assume a: "axios_request backend req = Inl (AxiosError msg response)"
        then have k: "handleMcpRequest backend request
                        = (case api_error_result msg response of
                             Inl e \<Rightarrow> (Inl e, [req])
                           | Inr result \<Rightarrow> (Inr (result_envelope rid result), [req]))"
          by (simp add: h ct r enveloped_def respond_def)
        show ?thesis
        proof (cases "api_error_result msg response")
          case (Inl e)
          with a k show ?thesis by auto
        next
          case (Inr result)
          with k have "handleMcpRequest backend request
                         = (Inr (result_envelope rid result), [req])" by simp
          then show ?thesis by blast
        qed
      qed
    next
      fix e assume "\<exists>m. e = Error m" and "hd = (Inl e, [])"
      then have "\<exists>msg. handleMcpRequest backend request
                         = (Inr (error_envelope rid (- 32603) msg), [])"
        by (auto simp: h ct enveloped_def)
      then show ?thesis by blast
    qed
  next
    assume "call_tool backend request rid
             = (Inr (error_envelope rid (- 32601) (''Unknown tool: '' @ nm)), [])"
    then have "handleMcpRequest backend request
                 = (Inr (error_envelope rid (- 32601) (''Unknown tool: '' @ nm)), [])"
      by (simp add: h)
    then show ?thesis by blast
  qed
qed

text \<open>
  Two more interpolations of \<^verbatim>\<open>server.js\<close> convert a value of the request. That of an
  unknown tool name stands inside the \<^verbatim>\<open>try\<close>, so what it throws is reported as an
  internal error; that of an unknown method stands outside any \<^verbatim>\<open>try\<close>, so what it throws
  leaves \<^verbatim>\<open>handleMcpRequest\<close>.
\<close>

lemma unconvertible_names:
  "handleMcpRequest backend
     (JObj [(''id'', rid), (''method'', JStr ''call_tool''),
            (''params'', JObj [(''name'', JObj [(''toString'', JNum (Integral 1))])])])
   = (Inr (error_envelope rid (- 32603)
             ''Unexpected error: Cannot convert object to primitive value''), [])"
  "handleMcpRequest backend
     (JObj [(''id'', rid), (''method'', JObj [(''toString'', JNum (Integral 1))])])
   = (Inl (TypeError ''Cannot convert object to primitive value''), [])"
  by (simp_all add: handleMcpRequest_def call_tool_def reading_def get_property_def
        interpolating_def message_of_def)

text \<open>
  C7 does not hold of the code. Both variants catch what a tool call throws and report
  it, but the \<^verbatim>\<open>catch\<close> block itself interpolates the \<^verbatim>\<open>message\<close> of the error body of the
  backend into a template literal, and that conversion can throw. For a
  \<^verbatim>\<open>get_open_positions\<close> call that the backend answers with status 500 and the body
  \<^verbatim>\<open>{"message": {"toString": 1}}\<close>, the handler of \<^verbatim>\<open>mt5-server.ts\<close> raises a TypeError
  (no McpError) after the request has been issued, and \<^verbatim>\<open>handleMcpRequest\<close> of \<^verbatim>\<open>server.js\<close>
  raises it too, so that the loop on standard input logs the exception and writes no
  response at all for the request.
\<close>

theorem error_message_conversion_raises:
  "CallToolRequest_handler (\<lambda>r. HttpResponse 500 example_unconvertible)
       ''get_open_positions'' (JObj [])
     = (Inl (TypeError ''Cannot convert object to primitive value''),
        [\<lparr>client = apiClient, verb = GET, url = ''/positions'', body = None\<rparr>])
   \<and> handleMcpRequest (\<lambda>r. HttpResponse 500 example_unconvertible)
       (tool_call_request (JNum (Integral 1)) ''get_open_positions'' (JObj []))
     = (Inl (TypeError ''Cannot convert object to primitive value''),
        [\<lparr>client = apiClient, verb = GET, url = ''/positions'', body = None\<rparr>])
   \<and> process_message
       (\<lambda>s. Inr (tool_call_request (JNum (Integral 1)) ''get_open_positions'' (JObj [])))
       (\<lambda>r. HttpResponse 500 example_unconvertible) content
     = [Requested \<lparr>client = apiClient, verb = GET, url = ''/positions'', body = None\<rparr>,
        Logged (TypeError ''Cannot convert object to primitive value'')]"
proof -
  have a: "api_error_result msg (Some (500, example_unconvertible))
             = Inl (TypeError ''Cannot convert object to primitive value'')" for msg
    by (simp add: api_error_result_response example_unconvertible_def)
  have 1: "CallToolRequest_handler (\<lambda>r. HttpResponse 500 example_unconvertible)
       ''get_open_positions'' (JObj [])
     = (Inl (TypeError ''Cannot convert object to primitive value''),
        [\<lparr>client = apiClient, verb = GET, url = ''/positions'', body = None\<rparr>])"
    by (simp add: plain_handlers respond_500 a)
  have 2: "handleMcpRequest (\<lambda>r. HttpResponse 500 example_unconvertible)
       (tool_call_request (JNum (Integral 1)) ''get_open_positions'' (JObj []))
     = (Inl (TypeError ''Cannot convert object to primitive value''),
        [\<lparr>client = apiClient, verb = GET, url = ''/positions'', body = None\<rparr>])"
    by (simp add: plain_call respond_500 a)
  show ?thesis
    by (simp add: 1 process_message_def 2)
qed

section \<open>The framer\<close>

lemma digit_cases: "k < 10 \<Longrightarrow> k \<in> {0, 1, 2, 3, 4, 5, 6, 7, 8, 9::nat}"
  by auto

lemma digit_char:
  assumes "k < 10"
  shows "is_digit (''0123456789'' ! k)" and "of_char (''0123456789'' ! k) - 48 = k"
  using digit_cases [OF assms] by (auto simp: is_digit_def)

lemma show_nat_digits: "\<forall>c \<in> set (show_nat n). is_digit c"
proof (induction n rule: show_nat.induct)
  case (1 n)
  show ?case
  proof (cases "n < 10")
    case True
    then show ?thesis by (subst show_nat.simps) (simp add: digit_char)
  next
    case False
    with 1 show ?thesis by (subst show_nat.simps) (simp add: digit_char)
  qed
qed

lemma show_nat_nonempty: "show_nat n \<noteq> []"
  by (subst show_nat.simps) simp

lemma parseInt_snoc: "parseInt (ds @ [c]) = 10 * parseInt ds + (of_char c - 48)"
  by (simp add: parseInt_def)

lemma parseInt_show_nat: "parseInt (show_nat n) = n"
proof (induction n rule: show_nat.induct)
  case (1 n)
  show ?case
  proof (cases "n < 10")
    case True
    then show ?thesis by (subst show_nat.simps) (simp add: parseInt_def digit_char)
  next
    case False
    with 1 show ?thesis by (subst show_nat.simps) (simp add: parseInt_snoc digit_char)
  qed
qed

lemma takeWhile_digits:
  "takeWhile is_digit (show_nat n @ CRLF2 @ rest) = show_nat n"
proof -
  have "\<not> is_digit (CHR 0x0D)" by (simp add: is_digit_def)
  then show ?thesis
    using show_nat_digits [of n] by (simp add: CRLF2_def)
qed

lemma drop_exact: "length xs = k \<Longrightarrow> drop k (xs @ ys) = ys"
  by simp

lemma drop_more: "length xs = k \<Longrightarrow> drop (k + n) (xs @ ys) = drop n ys"
  by simp

lemma take_exact: "length xs = k \<Longrightarrow> take k (xs @ ys) = xs"
  by simp

lemma match_here_header:
  "match_here (''Content-Length: '' @ show_nat n @ CRLF2 @ rest)
     = Some (show_nat n, 16 + length (show_nat n) + 4)"
proof -
  have l16: "length ''Content-Length: '' = 16" by simp
  have d: "drop 16 (''Content-Length: '' @ show_nat n @ CRLF2 @ rest) = show_nat n @ CRLF2 @ rest"
    by (rule drop_exact [OF l16])
  have t: "take 16 (''Content-Length: '' @ show_nat n @ CRLF2 @ rest) = ''Content-Length: ''"
    by (rule take_exact [OF l16])
  have l: "length (''Content-Length: '' @ show_nat n) = 16 + length (show_nat n)"
    by simp
  have "drop (16 + length (show_nat n)) ((''Content-Length: '' @ show_nat n) @ CRLF2 @ rest)
          = CRLF2 @ rest"
    by (rule drop_exact [OF l])
  then have e: "take 4 (drop (16 + length (show_nat n))
                  (''Content-Length: '' @ show_nat n @ CRLF2 @ rest)) = CRLF2"
    by (simp only: append_assoc) (simp add: CRLF2_def)
  show ?thesis
    unfolding match_here_def t d takeWhile_digits Let_def using e show_nat_nonempty [of n]
    by simp
qed

lemma header_match_header:
  "header_match (''Content-Length: '' @ show_nat n @ CRLF2 @ rest)
     = Some (0, show_nat n, 16 + length (show_nat n) + 4)"
proof -
  obtain c cs where s: "''Content-Length: '' @ show_nat n @ CRLF2 @ rest = c # cs"
    by simp
  show ?thesis
    unfolding s using match_here_header [of n rest, unfolded s] by simp
qed

lemma drain_stop: "header_match buffer = None \<Longrightarrow> drain parse backend buffer = (buffer, [])"
  by (subst drain.simps) simp

lemma drain_header:
  assumes "n \<le> length rest"
  shows "drain parse backend (''Content-Length: '' @ show_nat n @ CRLF2 @ rest)
           = (fst (drain parse backend (drop n rest)),
              process_message parse backend (take n rest) @ snd (drain parse backend (drop n rest)))"
proof -
  let ?h = "''Content-Length: '' @ show_nat n @ CRLF2"
  let ?b = "''Content-Length: '' @ show_nat n @ CRLF2 @ rest"
  have l: "length ?h = 16 + length (show_nat n) + 4" by (simp add: CRLF2_def)
  have b: "?b = ?h @ rest" by simp
  have 1: "drop (0 + (16 + length (show_nat n) + 4)) ?b = rest"
    unfolding b add_0 by (rule drop_exact [OF l])
  have 2: "drop (0 + (16 + length (show_nat n) + 4) + n) ?b = drop n rest"
    unfolding b add_0 by (rule drop_more [OF l])
  have 3: "\<not> length ?b < 0 + (16 + length (show_nat n) + 4) + n"
    using assms by (simp add: CRLF2_def)
  show ?thesis
    by (subst drain.simps)
       (simp only: header_match_header option.case prod.case Let_def parseInt_show_nat
          1 2 3 if_False)
qed

lemma drain_frame:
  "drain parse backend (frame payload @ rest)
     = (fst (drain parse backend rest),
        process_message parse backend payload @ snd (drain parse backend rest))"
  using drain_header [of "length payload" "payload @ rest" parse backend]
  by (simp add: frame_def)

lemma drain_frames:
  "drain parse backend (concat (map frame ms))
     = ([], concat (map (process_message parse backend) ms))"
proof (induction ms)
  case Nil
  then show ?case by (simp add: drain_stop)
next
  case (Cons m ms)
  then show ?case by (simp add: drain_frame)
qed

subsection \<open>Delivery in chunks\<close>

lemma take_C: "take 16 t = CHR ''C'' # r \<Longrightarrow> \<exists>t'. t = CHR ''C'' # t'"
  by (cases t) simp_all

lemma match_here_C:
  assumes "match_here t = Some x"
  shows "\<exists>t'. t = CHR ''C'' # t'"
proof -
  have "take 16 t = ''Content-Length: ''"
    using assms unfolding match_here_def by (cases "take 16 t = ''Content-Length: ''") simp_all
  then show ?thesis by (intro take_C [of t "''ontent-Length: ''"]) simp
qed

lemma header_match_None:
  "(\<And>i. i < length s \<Longrightarrow> match_here (drop i s) = None) \<Longrightarrow> header_match s = None"
proof (induction s)
  case Nil
  then show ?case by simp
next
  case (Cons c cs)
  have 0: "match_here (c # cs) = None" using Cons.prems [of 0] by simp
  have "header_match cs = None"
  proof (rule Cons.IH)
    fix i assume "i < length cs"
    then show "match_here (drop i cs) = None" using Cons.prems [of "Suc i"] by simp
  qed
  with 0 show ?case by simp
qed

lemma no_C_no_match:
  assumes "CHR ''C'' \<notin> set s"
  shows "match_here (drop i s) = None"
proof (cases "match_here (drop i s)")
  case None then show ?thesis .
next
  case (Some x)
  then obtain t' where "drop i s = CHR ''C'' # t'" using match_here_C by blast
  then have "CHR ''C'' \<in> set (drop i s)" by simp
  then have "CHR ''C'' \<in> set s" by (rule in_set_dropD)
  with assms show ?thesis by simp
qed

lemma digits_no_C: "CHR ''C'' \<notin> set (show_nat k)"
proof -
  have "\<not> is_digit (CHR ''C'')" by (simp add: is_digit_def)
  with show_nat_digits [of k] show ?thesis by blast
qed

lemma header_tail_no_C:
  "CHR ''C'' \<notin> set (''ontent-Length: '' @ show_nat k @ CRLF2)"
  using digits_no_C [of k] by (simp add: CRLF2_def)

lemma match_here_short: "length q < 16 \<Longrightarrow> match_here q = None"
proof -
  assume "length q < 16"
  then have "length (take 16 q) \<noteq> length ''Content-Length: ''" by simp
  then have "take 16 q \<noteq> ''Content-Length: ''" by metis
  then show ?thesis by (simp add: match_here_def)
qed

lemma match_here_body:
  "match_here (''Content-Length: '' @ q2)
     = (let ds = takeWhile is_digit q2 in
        if ds \<noteq> [] \<and> take 4 (dropWhile is_digit q2) = CRLF2
        then Some (ds, 16 + length ds + 4) else None)"
proof -
  have l16: "length ''Content-Length: '' = 16" by simp
  have d: "drop 16 (''Content-Length: '' @ q2) = q2" by (rule drop_exact [OF l16])
  have t: "take 16 (''Content-Length: '' @ q2) = ''Content-Length: ''" by (rule take_exact [OF l16])
  have "drop (16 + length (takeWhile is_digit q2)) (''Content-Length: '' @ q2)
          = drop (length (takeWhile is_digit q2)) q2"
    by (rule drop_more [OF l16])
  also have "\<dots> = dropWhile is_digit q2"
    by (rule dropWhile_eq_drop [symmetric])
  finally show ?thesis
    unfolding match_here_def t d by (simp add: Let_def)
qed

lemma partial_header_body:
  assumes "q2 @ r = show_nat k @ CRLF2" and "r \<noteq> []"
  shows "take 4 (dropWhile is_digit q2) \<noteq> CRLF2"
proof -
  have nd: "\<not> is_digit (CHR 0x0D)" by (simp add: is_digit_def)
  from assms(1) consider
      us where "q2 = show_nat k @ us" and "us @ r = CRLF2"
    | us where "q2 @ us = show_nat k"
    by (auto simp: append_eq_append_conv2)
  then show ?thesis
  proof cases
    case 1
    have "length us + length r = 4"
      using arg_cong [OF 1(2), of length] by (simp add: CRLF2_def)
    with assms(2) have "length us < 4"
      by (cases r) simp_all
    moreover have "dropWhile is_digit q2 = us"
    proof (cases us)
      case Nil
      with 1 show ?thesis using show_nat_digits [of k] by simp
    next
      case (Cons c cs)
      with 1(2) have "c = CHR 0x0D" by (simp add: CRLF2_def)
      with Cons nd 1(1) show ?thesis using show_nat_digits [of k]
        by simp
    qed
    ultimately have "length (take 4 (dropWhile is_digit q2)) < 4" by simp
    then show ?thesis by (auto simp: CRLF2_def)
  next
    case 2
    then have "set q2 \<subseteq> set (show_nat k)" by (metis set_append Un_upper1)
    with show_nat_digits [of k] have e: "dropWhile is_digit q2 = []"
      by auto
    show ?thesis unfolding e by (simp add: CRLF2_def)
  qed
qed

lemma partial_header_no_match:
  assumes "q @ r = ''Content-Length: '' @ show_nat k @ CRLF2" and "r \<noteq> []"
  shows "header_match q = None"
proof (rule header_match_None)
  fix i assume i: "i < length q"
  show "match_here (drop i q) = None"
  proof (cases i)
    case 0
    show ?thesis
    proof (cases "length q < 16")
      case True
      with 0 show ?thesis by (simp add: match_here_short)
    next
      case False
      have l16: "length ''Content-Length: '' = 16" by simp
      from assms(1) obtain us where
        "q = ''Content-Length: '' @ us \<and> us @ r = show_nat k @ CRLF2
         \<or> q @ us = ''Content-Length: '' \<and> r = us @ show_nat k @ CRLF2"
        unfolding append_eq_append_conv2 by blast
      then obtain us' where 1: "q = ''Content-Length: '' @ us'" "us' @ r = show_nat k @ CRLF2"
      proof (elim disjE conjE)
        assume "q = ''Content-Length: '' @ us" and "us @ r = show_nat k @ CRLF2"
        then show ?thesis by (rule that)
      next
        assume a: "q @ us = ''Content-Length: ''" and b: "r = us @ show_nat k @ CRLF2"
        have "length (q @ us) = 16" unfolding a by (rule l16)
        then have "length q + length us = 16" by (simp only: length_append)
        with False have "length us = 0" by arith
        then have "us = []" by simp
        with a b have "q = ''Content-Length: '' @ []" and "[] @ r = show_nat k @ CRLF2"
          by simp_all
        then show ?thesis by (rule that)
      qed
      have "match_here (''Content-Length: '' @ us') = None"
        using partial_header_body [OF 1(2) assms(2)]
        by (simp only: match_here_body Let_def simp_thms if_False)
      with 0 1(1) show ?thesis by simp
    qed
  next
    case (Suc j)
    from i obtain c q' where q: "q = c # q'" by (cases q) auto
    with assms(1) have "q' @ r = ''ontent-Length: '' @ show_nat k @ CRLF2" by simp
    then have "set q' \<subseteq> set (''ontent-Length: '' @ show_nat k @ CRLF2)"
      by (metis set_append Un_upper1)
    with header_tail_no_C [of k] have "CHR ''C'' \<notin> set q'" by blast
    from no_C_no_match [OF this, of j] show ?thesis by (simp add: Suc q)
  qed
qed

lemma drain_partial:
  assumes "q @ r = frame m" and "r \<noteq> []"
  shows "drain parse backend q = (q, [])"
proof -
  let ?h = "''Content-Length: '' @ show_nat (length m) @ CRLF2"
  have f: "frame m = ?h @ m" by (simp add: frame_def)
  from assms(1) obtain us where
    "q = ?h @ us \<and> us @ r = m \<or> q @ us = ?h \<and> r = us @ m"
    unfolding f append_eq_append_conv2 by blast
  then show ?thesis
  proof (elim disjE conjE)
    assume q: "q = ?h @ us" and m: "us @ r = m"
    have lt: "length us < length m" using m assms(2) by (cases r) auto
    have l: "length ?h = 16 + length (show_nat (length m)) + 4" by (simp add: CRLF2_def)
    have b: "''Content-Length: '' @ show_nat (length m) @ CRLF2 @ us = ?h @ us" by simp
    have 3: "length (?h @ us) < 0 + (16 + length (show_nat (length m)) + 4) + length m"
      using lt l by simp
    have "drain parse backend (''Content-Length: '' @ show_nat (length m) @ CRLF2 @ us)
            = (''Content-Length: '' @ show_nat (length m) @ CRLF2 @ us, [])"
      by (subst drain.simps)
         (simp only: header_match_header option.case prod.case Let_def parseInt_show_nat
            3 [folded b] if_True)
    then show ?thesis unfolding q by simp
  next
    assume a: "q @ us = ?h" and b: "r = us @ m"
    show ?thesis
    proof (cases "us = []")
      case True
      with a b have q: "q = ?h @ []" and m: "[] @ r = m" by simp_all
      have "length m \<noteq> 0" using m assms(2) by auto
      have l: "length ?h = 16 + length (show_nat (length m)) + 4" by (simp add: CRLF2_def)
      have 3: "length (''Content-Length: '' @ show_nat (length m) @ CRLF2 @ [])
                 < 0 + (16 + length (show_nat (length m)) + 4) + length m"
        using l \<open>length m \<noteq> 0\<close> by simp
      have "drain parse backend (''Content-Length: '' @ show_nat (length m) @ CRLF2 @ [])
            = (''Content-Length: '' @ show_nat (length m) @ CRLF2 @ [], [])"
        by (subst drain.simps)
           (simp only: header_match_header option.case prod.case Let_def parseInt_show_nat
              3 if_True)
      then show ?thesis unfolding q by simp
    next
      case False
      from partial_header_no_match [OF a False] show ?thesis by (rule drain_stop)
    qed
  qed
qed

lemma drain_incremental:
  assumes "p @ r = concat (map frame ms)"
  shows "drain parse backend (p @ c)
           = (fst (drain parse backend (fst (drain parse backend p) @ c)),
              snd (drain parse backend p)
              @ snd (drain parse backend (fst (drain parse backend p) @ c)))"
  using assms
proof (induction ms arbitrary: p r)
  case Nil
  then show ?case by (simp add: drain_stop)
next
  case (Cons m ms)
  from Cons.prems obtain us where
    "p = frame m @ us \<and> us @ r = concat (map frame ms)
     \<or> p @ us = frame m \<and> r = us @ concat (map frame ms)"
    by (simp add: append_eq_append_conv2) blast
  then show ?case
  proof (elim disjE conjE)
    assume p: "p = frame m @ us" and u: "us @ r = concat (map frame ms)"
    show ?thesis
      unfolding p append_assoc drain_frame fst_conv snd_conv
      by (simp add: Cons.IH [OF u])
  next
    assume a: "p @ us = frame m" and "r = us @ concat (map frame ms)"
    show ?thesis
    proof (cases "us = []")
      case True
      with a have p: "p = frame m @ []" by simp
      have "drain parse backend [] = ([], [])" by (simp add: drain_stop)
      then show ?thesis
        unfolding p append_assoc drain_frame by simp
    next
      case False
      from drain_partial [OF a False] show ?thesis by simp
    qed
  qed
qed

lemma feed_drain:
  assumes "(p @ concat chunks) @ r = concat (map frame ms)"
  shows "fst (feed parse backend (fst (drain parse backend p)) chunks)
           = fst (drain parse backend (p @ concat chunks))
       \<and> snd (drain parse backend p) @ snd (feed parse backend (fst (drain parse backend p)) chunks)
           = snd (drain parse backend (p @ concat chunks))"
  using assms
proof (induction chunks arbitrary: p)
  case Nil
  then show ?case by simp
next
  case (Cons c cs)
  have inc: "drain parse backend (p @ c)
           = (fst (drain parse backend (fst (drain parse backend p) @ c)),
              snd (drain parse backend p)
              @ snd (drain parse backend (fst (drain parse backend p) @ c)))"
    using Cons.prems by (intro drain_incremental [of p "c @ concat cs @ r" ms]) simp
  have "((p @ c) @ concat cs) @ r = concat (map frame ms)" using Cons.prems by simp
  from Cons.IH [OF this] inc show ?case
    by (simp add: on_data_def Let_def)
qed

text \<open>
  When every header gives the length of its payload in units of the string, a stream of
  frames is decoded whatever the split into chunks: the loop hands every payload, in
  order, to \<^verbatim>\<open>JSON.parse\<close> and the dispatcher, and leaves the buffer empty. This covers the
  frames whose header gives the length in bytes when the payloads are ASCII, where the
  two lengths agree.
\<close>

theorem frames_decoded_at_any_split:
  assumes "concat chunks = concat (map frame ms)"
  shows "feed parse backend [] chunks = ([], concat (map (process_message parse backend) ms))"
proof -
  have d: "drain parse backend [] = ([], [])" by (simp add: drain_stop)
  have "([] @ concat chunks) @ [] = concat (map frame ms)" using assms by simp
  from feed_drain [OF this, of parse backend] show ?thesis
    unfolding d by (simp add: assms drain_frames prod_eq_iff)
qed

lemma ascii_frames_decoded_at_any_split:
  assumes "\<forall>m \<in> set ms. byteLength m = length m"
    and "concat chunks = concat (map frame_bytes ms)"
  shows "feed parse backend [] chunks = ([], concat (map (process_message parse backend) ms))"
proof -
  have "map frame_bytes ms = map frame ms"
    using assms(1) by (simp add: frame_bytes_def frame_def)
  with assms(2) show ?thesis by (simp add: frames_decoded_at_any_split)
qed

subsection \<open>A frame that does not decode\<close>

text \<open>
  In a stream of frames whose headers count the units of the string, a frame whose
  payload \<^verbatim>\<open>JSON.parse\<close> rejects is logged and removed from the buffer, and the loop goes
  on with what follows as if the frame had not been there: delivered in chunks split at
  any points, every other message is processed, in order. A message that decodes to the
  request \<open>request\<close> is answered with the frame of the serialized envelope when
  \<^verbatim>\<open>handleMcpRequest\<close> returns one, and logged when it raises.
\<close>

lemma unit_counted_malformed_frame_skipped:
  assumes "parse bad = Inl e"
  shows "drain parse backend (frame bad @ rest)
           = (fst (drain parse backend rest), Logged e # snd (drain parse backend rest))"
    and "concat chunks = concat (map frame before) @ frame bad @ concat (map frame after) \<Longrightarrow>
         feed parse backend [] chunks
           = ([], concat (map (process_message parse backend) before)
                  @ Logged e # concat (map (process_message parse backend) after))"
proof -
  have b: "process_message parse backend bad = [Logged e]"
    by (simp add: process_message_def assms)
  show "drain parse backend (frame bad @ rest)
           = (fst (drain parse backend rest), Logged e # snd (drain parse backend rest))"
    by (simp add: drain_frame b)
  show "feed parse backend [] chunks
          = ([], concat (map (process_message parse backend) before)
                 @ Logged e # concat (map (process_message parse backend) after))"
    if "concat chunks = concat (map frame before) @ frame bad @ concat (map frame after)"
    using frames_decoded_at_any_split [of chunks "before @ bad # after" parse backend] that
    by (simp add: b)
qed

lemma process_message_answered:
  assumes "parse m = Inr request"
  shows "handleMcpRequest backend request = (Inr response, issued) \<Longrightarrow>
         JSON_stringify response 0 = Some serialized \<Longrightarrow>
         process_message parse backend m = map Requested issued @ [Written (frame serialized)]"
    and "handleMcpRequest backend request = (Inl e, issued) \<Longrightarrow>
         process_message parse backend m = map Requested issued @ [Logged e]"
  by (simp_all add: process_message_def assms frame_def)

lemma initialize_answer:
  \<open>process_message example_parse backend ''{"id":1,"method":"initialize"}''
     = [Written (frame ''{"jsonrpc":"2.0","id":1,"result":{"success":true,"serverInfo":{"name":"metatrader5-mcp-server","version":"1.0.0"},"capabilities":{"tools":{}}}}'')]\<close>
  by (simp add: process_message_def example_parse_def handleMcpRequest_def reading_def
        get_property_def result_envelope_def JSON_stringify_def wrap_def QuoteJSONString_def
        quote_char_def Number_toString_def show_int_def show_nat.simps frame_def)

subsection \<open>Lengths in bytes\<close>

lemma byteLength_accented: "byteLength example_accented = Suc (length example_accented)"
  by (simp add: byteLength_def example_accented_def)

lemma frame_bytes_accented:
  \<open>frame_bytes example_accented @ rest
     = ''Content-Length: '' @ show_nat (Suc (length example_accented)) @ CRLF2
       @ (example_accented @ rest)\<close>
  by (simp only: frame_bytes_def byteLength_accented append_assoc)

lemma no_header_left:
  \<open>header_match (tl (frame_bytes ''{"id":2,"method":"initialize"}'')) = None\<close>
  by (simp add: frame_bytes_def byteLength_def show_nat.simps CRLF2_def match_here_def)

text \<open>
  C6 does not hold of the code. The loop measures the payload in units of the string,
  not in bytes. For a payload of 24 units and 25 bytes, framed with its length in bytes,
  followed by a second frame and delivered as one chunk to the empty buffer, the loop
  hands \<^verbatim>\<open>JSON.parse\<close> the payload with the first character of the next header appended,
  and the second frame stays in the buffer without its first character, where no header
  is found: the second message is never decoded.
\<close>

theorem byte_length_header_loses_message:
  \<open>byteLength example_accented = length example_accented + 1
   \<and> on_data parse backend []
        (frame_bytes example_accented @ frame_bytes ''{"id":2,"method":"initialize"}'')
      = (tl (frame_bytes ''{"id":2,"method":"initialize"}''),
         process_message parse backend (example_accented @ ''C''))\<close>
proof -
  let ?m2 = \<open>frame_bytes ''{"id":2,"method":"initialize"}''\<close>
  have c: "?m2 = CHR ''C'' # tl ?m2"
    by (simp add: frame_bytes_def)
  have n: "Suc (length example_accented) \<le> length (example_accented @ ?m2)"
    by (subst c) simp
  have t: "take (Suc (length example_accented)) (example_accented @ ?m2) = example_accented @ ''C''"
    by (subst c) simp
  have d: "drop (Suc (length example_accented)) (example_accented @ ?m2) = tl ?m2"
    by (subst c) simp
  have "drain parse backend (frame_bytes example_accented @ ?m2)
          = (tl ?m2, process_message parse backend (example_accented @ ''C''))"
    unfolding frame_bytes_accented
    by (simp only: drain_header [OF n] t d drain_stop [OF no_header_left] fst_conv snd_conv
          append_Nil2)
  moreover have "byteLength example_accented = length example_accented + 1"
    by (simp only: byteLength_accented Suc_eq_plus1)
  ultimately show ?thesis by (simp add: on_data_def)
qed

lemma byteLength_malformed: "byteLength example_malformed = Suc (length example_malformed)"
  by (simp add: byteLength_def example_malformed_def)

lemma frame_bytes_malformed:
  \<open>frame_bytes example_malformed @ rest
     = ''Content-Length: '' @ show_nat (Suc (length example_malformed)) @ CRLF2
       @ (example_malformed @ rest)\<close>
  by (simp only: frame_bytes_def byteLength_malformed append_assoc)

lemma no_header_left_initialize:
  \<open>header_match (tl (frame_bytes ''{"id":1,"method":"initialize"}'')) = None\<close>
  by (simp add: frame_bytes_def byteLength_def show_nat.simps CRLF2_def match_here_def)

text \<open>
  What stays in the buffer before a header is never read again: the next frame that
  arrives is found behind it, and the cut that removes that frame removes it too.
\<close>

lemma header_match_junk:
  assumes "CHR ''C'' \<notin> set junk"
  shows "header_match (junk @ s)
           = (case header_match s of None \<Rightarrow> None
              | Some (i, ds, n) \<Rightarrow> Some (length junk + i, ds, n))"
  using assms
proof (induction junk)
  case Nil
  then show ?case by (simp split: option.splits)
next
  case (Cons c cs)
  have "match_here (c # cs @ s) = None"
  proof (cases "match_here (c # cs @ s)")
    case (Some x)
    then obtain t' where "c # cs @ s = CHR ''C'' # t'" using match_here_C by blast
    with Cons.prems show ?thesis by simp
  qed simp
  with Cons show ?case by (simp split: option.splits)
qed

lemma junk_discarded:
  assumes "CHR ''C'' \<notin> set junk" and "header_match s = Some (i, ds, n)"
    and "i + n + parseInt ds \<le> length s"
  shows "drain parse backend (junk @ s) = drain parse backend s"
proof -
  have h: "header_match (junk @ s) = Some (length junk + i, ds, n)"
    by (simp add: header_match_junk [OF assms(1)] assms(2))
  show ?thesis
    apply (subst drain.simps)
    apply (subst (2) drain.simps)
    using assms(3)
    apply (simp add: h assms(2) Let_def add.assoc)
    done
qed

lemma lost_message_discarded:
  \<open>on_data parse backend (tl (frame_bytes ''{"id":1,"method":"initialize"}''))
      (frame ''{"id":1,"method":"initialize"}'')
    = ([], process_message parse backend ''{"id":1,"method":"initialize"}'')\<close>
proof -
  let ?g = \<open>''{"id":1,"method":"initialize"}''\<close>
  have c: "CHR ''C'' \<notin> set (tl (frame_bytes ?g))"
    by (simp add: frame_bytes_def byteLength_def show_nat.simps CRLF2_def)
  have m: "header_match (frame ?g)
             = Some (0, show_nat (length ?g), 16 + length (show_nat (length ?g)) + 4)"
    using header_match_header [of "length ?g" ?g] by (simp add: frame_def)
  have l: "0 + (16 + length (show_nat (length ?g)) + 4) + parseInt (show_nat (length ?g))
             \<le> length (frame ?g)"
    by (simp add: parseInt_show_nat frame_def CRLF2_def)
  have "drain parse backend (tl (frame_bytes ?g) @ frame ?g) = drain parse backend (frame ?g)"
    by (rule junk_discarded [OF c m l])
  also have "\<dots> = ([], process_message parse backend ?g)"
    using drain_frames [of parse backend "[?g]"] by simp
  finally show ?thesis by (simp add: on_data_def)
qed

lemma malformed_rejected:
  "example_parse example_malformed = Inl (SyntaxError ''Unexpected token'')"
  "example_parse (example_malformed @ ''C'') = Inl (SyntaxError ''Unexpected token'')"
  by (simp_all add: example_parse_def example_malformed_def)

text \<open>
  C8 does not hold of the code, by the defect that refutes C6: the loop removes the bad
  frame by the number of its header taken as a count of units of the string, not of bytes.
  For the payload \<^verbatim>\<open>{oops\<close>e-acute, which is no JSON text and has 6 units and 7 bytes,
  framed with its length in bytes and followed by the frame of a well-formed message, the
  loop logs the error of \<^verbatim>\<open>JSON.parse\<close> but removes one unit too many: the next frame
  stays in the buffer without the first character of its header, where no header is
  found, and its message is neither processed nor answered. When a further frame
  arrives in a second chunk, that frame is answered and what was left of the lost one is
  removed with it: of the two well-formed messages that follow the bad frame, one is
  answered. (Framed with its length in units, the same payload is logged and skipped, and
  the message after it is answered.)
\<close>

theorem malformed_frame_loses_next_message:
  \<open>byteLength example_malformed = length example_malformed + 1
   \<and> on_data parse backend []
        (frame_bytes example_malformed @ frame_bytes ''{"id":1,"method":"initialize"}'')
      = (tl (frame_bytes ''{"id":1,"method":"initialize"}''),
         process_message parse backend (example_malformed @ ''C''))
   \<and> on_data example_parse backend []
        (frame_bytes example_malformed @ frame_bytes ''{"id":1,"method":"initialize"}'')
      = (tl (frame_bytes ''{"id":1,"method":"initialize"}''),
         [Logged (SyntaxError ''Unexpected token'')])
   \<and> feed example_parse backend []
        [frame_bytes example_malformed @ frame_bytes ''{"id":1,"method":"initialize"}'',
         frame_bytes ''{"id":1,"method":"initialize"}'']
      = ([], [Logged (SyntaxError ''Unexpected token''),
              Written (frame ''{"jsonrpc":"2.0","id":1,"result":{"success":true,"serverInfo":{"name":"metatrader5-mcp-server","version":"1.0.0"},"capabilities":{"tools":{}}}}'')])
   \<and> on_data example_parse backend []
        (frame example_malformed @ frame ''{"id":1,"method":"initialize"}'')
      = ([], [Logged (SyntaxError ''Unexpected token''),
              Written (frame ''{"jsonrpc":"2.0","id":1,"result":{"success":true,"serverInfo":{"name":"metatrader5-mcp-server","version":"1.0.0"},"capabilities":{"tools":{}}}}'')])\<close>
proof -
  let ?m2 = \<open>frame_bytes ''{"id":1,"method":"initialize"}''\<close>
  have c: "?m2 = CHR ''C'' # tl ?m2"
    by (simp add: frame_bytes_def)
  have n: "Suc (length example_malformed) \<le> length (example_malformed @ ?m2)"
    by (subst c) simp
  have t: "take (Suc (length example_malformed)) (example_malformed @ ?m2)
             = example_malformed @ ''C''"
    by (subst c) simp
  have d: "drop (Suc (length example_malformed)) (example_malformed @ ?m2) = tl ?m2"
    by (subst c) simp
  have 1: "drain parse backend (frame_bytes example_malformed @ ?m2)
          = (tl ?m2, process_message parse backend (example_malformed @ ''C''))" for parse
    unfolding frame_bytes_malformed
    by (simp only: drain_header [OF n] t d drain_stop [OF no_header_left_initialize]
          fst_conv snd_conv append_Nil2)
  have 2: "byteLength example_malformed = length example_malformed + 1"
    by (simp only: byteLength_malformed Suc_eq_plus1)
  have 3: "process_message example_parse backend (example_malformed @ ''C'')
             = [Logged (SyntaxError ''Unexpected token'')]"
    by (simp add: process_message_def malformed_rejected)
  have 4: \<open>drain example_parse backend
             (frame example_malformed @ frame ''{"id":1,"method":"initialize"}'' @ [])
           = ([], process_message example_parse backend example_malformed
                  @ process_message example_parse backend ''{"id":1,"method":"initialize"}'')\<close>
    using drain_frames [of example_parse backend
        \<open>[example_malformed, ''{"id":1,"method":"initialize"}'']\<close>]
    by simp
  have 5: "process_message example_parse backend example_malformed
             = [Logged (SyntaxError ''Unexpected token'')]"
    by (simp add: process_message_def malformed_rejected)
  have 6: \<open>?m2 = frame ''{"id":1,"method":"initialize"}''\<close>
    by (simp add: frame_bytes_def frame_def byteLength_def)
  have 8: \<open>on_data example_parse backend (tl ?m2) ?m2
             = ([], process_message example_parse backend ''{"id":1,"method":"initialize"}'')\<close>
    using lost_message_discarded [of example_parse backend] by (simp only: 6 [symmetric])
  have 7: \<open>feed example_parse backend [] [frame_bytes example_malformed @ ?m2, ?m2]
             = ([], [Logged (SyntaxError ''Unexpected token'')]
                    @ process_message example_parse backend ''{"id":1,"method":"initialize"}'')\<close>
    by (simp only: feed.simps Let_def on_data_def [of example_parse backend "[]"] append_Nil
          1 3 8 fst_conv snd_conv append_Nil2)
  show ?thesis
    using 1 2 3 4 5 7 by (simp add: on_data_def initialize_answer)
qed

end
